theory Spec2Isabelle
  imports Main "HOL-Library.Char_ord" "HOL-Library.List_Lexorder"
begin

section \<open>Day status classifier (status.ts)\<close>

text \<open>
  \<^verbatim>\<open>export type DayStatus = 'RED' | 'ORANGE' | 'GREEN'\<close>.
  The stored column \<^verbatim>\<open>day_status\<close> is free TEXT, so the serialised form is kept apart
  from the enumeration.
\<close>

datatype DayStatus = RED | ORANGE | GREEN

fun status_text :: "DayStatus \<Rightarrow> string" where
  "status_text RED = ''RED''"
| "status_text ORANGE = ''ORANGE''"
| "status_text GREEN = ''GREEN''"

text \<open>Severity order of the three levels: RED above ORANGE above GREEN.\<close>

fun severity :: "DayStatus \<Rightarrow> nat" where
  "severity GREEN = 0"
| "severity ORANGE = 1"
| "severity RED = 2"

text \<open>
  \<^verbatim>\<open>interface DayData { vomited: number; peed: number; pooped: number; meals: { status: string }[] }\<close>.
  The counts come from INTEGER columns and are modelled as \<^typ>\<open>int\<close>; a meal object
  \<^verbatim>\<open>{ status }\<close> has one field and is represented by that field.
\<close>

record DayData =
  vomited :: int
  peed :: int
  pooped :: int
  meals :: "string list"

text \<open>\<^verbatim>\<open>meals.some(m => m.status !== 'ate_fully')\<close>: a left-to-right scan, false on \<^verbatim>\<open>[]\<close>.\<close>

fun some_missed :: "string list \<Rightarrow> bool" where
  "some_missed [] = False"
| "some_missed (m # ms) = (if m \<noteq> ''ate_fully'' then True else some_missed ms)"

definition calculateDayStatus :: "DayData \<Rightarrow> DayStatus" where
  "calculateDayStatus data =
     (let hasVomit = (vomited data > 0);
          noPee = (peed data = 0);
          noPoop = (pooped data = 0);
          hasMissedMeal = some_missed (meals data)
      in if hasVomit \<and> (noPee \<or> noPoop \<or> hasMissedMeal) then RED
         else if noPee \<and> noPoop then RED
         else if hasVomit then ORANGE
         else if noPee \<or> noPoop then ORANGE
         else if hasMissedMeal then ORANGE
         else GREEN)"

subsection \<open>The ordered rule list of the specification\<close>

text \<open>
  The rule list as the specification words it: six rules, each a condition and a result,
  tried from the top; the first rule whose condition holds gives the result.
\<close>

definition spec_rules :: "int \<Rightarrow> int \<Rightarrow> int \<Rightarrow> string list \<Rightarrow> (bool \<times> DayStatus) list" where
  "spec_rules v p q ms =
     [ (v > 0 \<and> (p = 0 \<or> q = 0 \<or> (\<exists>m \<in> set ms. m \<noteq> ''ate_fully'')), RED),
       (p = 0 \<and> q = 0, RED),
       (v > 0, ORANGE),
       (p = 0 \<or> q = 0, ORANGE),
       (\<exists>m \<in> set ms. m \<noteq> ''ate_fully'', ORANGE),
       (True, GREEN) ]"

fun first_match :: "(bool \<times> DayStatus) list \<Rightarrow> DayStatus option" where
  "first_match [] = None"
| "first_match ((c, r) # rules) = (if c then Some r else first_match rules)"

section \<open>The store (db.ts)\<close>

text \<open>
  The SQLite tables are lists of rows in insertion order. Dates are TEXT in the form
  \<^verbatim>\<open>YYYY-MM-DD\<close>, compared bytewise by SQLite; here they are \<^typ>\<open>string\<close> with the
  lexicographic order on characters. Columns are prefixed with the table they belong to
  (\<open>dr_\<close> for \<^verbatim>\<open>daily_records\<close>, \<open>me_\<close> for \<^verbatim>\<open>meal_entries\<close>, \<open>mh_\<close> for
  \<^verbatim>\<open>meal_default_history\<close>, \<open>mc_\<close> for \<^verbatim>\<open>meal_config\<close>, \<open>md_\<close> for \<^verbatim>\<open>medications\<close>,
  \<open>mt_\<close> for \<^verbatim>\<open>medication_entries\<close>). The surrogate keys of the entry and history tables
  and the creation stamps of all tables but \<^verbatim>\<open>daily_records\<close> are read by no operation and
  are left out.
\<close>

record DailyRecord =
  dr_id :: nat
  dr_date :: string
  dr_teeth_brushed :: int
  dr_teeth_comment :: "string option"
  dr_vomited :: int
  dr_vomited_comment :: "string option"
  dr_peed :: int
  dr_peed_comment :: "string option"
  dr_pooped :: int
  dr_pooped_comment :: "string option"
  dr_drank :: int
  dr_drank_comment :: "string option"
  dr_daily_notes :: "string option"
  dr_day_status :: string
  dr_created_at :: string
  dr_updated_at :: string

record MealEntry =
  me_date :: string
  me_meal_slot :: int
  me_status :: string
  me_actual_amount :: "int option"
  me_comment :: "string option"

record MealDefaultHistory =
  mh_meal_slot :: int
  mh_default_amount :: int
  mh_effective_date :: string

record MealConfig =
  mc_meal_slot :: int
  mc_label :: string
  mc_default_amount :: int

record Medication =
  md_id :: int
  md_name :: string
  md_time_label :: string
  md_is_active :: int
  md_sort_order :: int

record MedicationEntry =
  mt_date :: string
  mt_medication_id :: int
  mt_taken :: int
  mt_comment :: "string option"

record store =
  daily_records :: "DailyRecord list"
  meal_entries :: "MealEntry list"
  meal_default_history :: "MealDefaultHistory list"
  meal_config :: "MealConfig list"
  medications :: "Medication list"
  medication_entries :: "MedicationEntry list"

text \<open>
  The tables after \<^verbatim>\<open>initializeDatabase\<close> on a fresh file: four seeded meal slots with
  default amount 0 and four seeded medications. Running it again on a store that already has its tables changes
  nothing: the seeding is skipped, and the migration into \<^verbatim>\<open>meal_default_history\<close> copies
  only positive defaults of \<^verbatim>\<open>meal_config\<close>, which no handler ever writes.
\<close>

definition initial_store :: store where
  "initial_store =
     \<lparr>daily_records = [], meal_entries = [], meal_default_history = [],
      meal_config =
        [\<lparr>mc_meal_slot = 1, mc_label = ''morning'', mc_default_amount = 0\<rparr>,
         \<lparr>mc_meal_slot = 2, mc_label = ''day'', mc_default_amount = 0\<rparr>,
         \<lparr>mc_meal_slot = 3, mc_label = ''evening'', mc_default_amount = 0\<rparr>,
         \<lparr>mc_meal_slot = 4, mc_label = ''night'', mc_default_amount = 0\<rparr>],
      medications =
        [\<lparr>md_id = 1, md_name = ''Normolact'', md_time_label = ''morning'',
          md_is_active = 1, md_sort_order = 1\<rparr>,
         \<lparr>md_id = 2, md_name = ''Normolact'', md_time_label = ''evening'',
          md_is_active = 1, md_sort_order = 2\<rparr>,
         \<lparr>md_id = 3, md_name = ''Renalvet'', md_time_label = ''evening with food'',
          md_is_active = 1, md_sort_order = 3\<rparr>,
         \<lparr>md_id = 4, md_name = ''FortiFlora'', md_time_label = ''evening with food'',
          md_is_active = 1, md_sort_order = 4\<rparr>],
      medication_entries = []\<rparr>"

subsection \<open>Daily records\<close>

text \<open>
  \<^verbatim>\<open>INSERT INTO daily_records (date) VALUES (?)\<close>: every other column takes its default,
  the key is the next value of the AUTOINCREMENT sequence (rows are never deleted, so one
  above the largest key in the table) and both stamps are the current time.
\<close>

definition next_id :: "DailyRecord list \<Rightarrow> nat" where
  "next_id rows = Suc (fold max (map dr_id rows) 0)"

definition default_record :: "nat \<Rightarrow> string \<Rightarrow> string \<Rightarrow> DailyRecord" where
  "default_record i d now =
     \<lparr>dr_id = i, dr_date = d, dr_teeth_brushed = 0, dr_teeth_comment = None,
      dr_vomited = 0, dr_vomited_comment = None, dr_peed = 0, dr_peed_comment = None,
      dr_pooped = 0, dr_pooped_comment = None, dr_drank = 0, dr_drank_comment = None,
      dr_daily_notes = None, dr_day_status = ''GREEN'',
      dr_created_at = now, dr_updated_at = now\<rparr>"

definition getOrCreateDailyRecord :: "store \<Rightarrow> string \<Rightarrow> string \<Rightarrow> DailyRecord \<times> store" where
  "getOrCreateDailyRecord s now d =
     (case find (\<lambda>r. dr_date r = d) (daily_records s) of
        Some record \<Rightarrow> (record, s)
      | None \<Rightarrow>
          (let record = default_record (next_id (daily_records s)) d now
           in (record, s\<lparr>daily_records := daily_records s @ [record]\<rparr>)))"

text \<open>
  \<^verbatim>\<open>Partial<DailyRecord>\<close>: every field of the interface may be present or absent.
  \<open>None\<close> is an absent key; a nullable column carries an option of its own.
\<close>

record DailyRecordPatch =
  p_id :: "nat option"
  p_date :: "string option"
  p_teeth_brushed :: "int option"
  p_teeth_comment :: "string option option"
  p_vomited :: "int option"
  p_vomited_comment :: "string option option"
  p_peed :: "int option"
  p_peed_comment :: "string option option"
  p_pooped :: "int option"
  p_pooped_comment :: "string option option"
  p_drank :: "int option"
  p_drank_comment :: "string option option"
  p_daily_notes :: "string option option"
  p_day_status :: "string option"

definition key_if :: "'a option \<Rightarrow> string \<Rightarrow> string list" where
  "key_if v k = (case v of None \<Rightarrow> [] | Some _ \<Rightarrow> [k])"

text \<open>\<^verbatim>\<open>Object.keys(data)\<close>; the columns are distinct, so their order plays no role.\<close>

definition patch_keys :: "DailyRecordPatch \<Rightarrow> string list" where
  "patch_keys data =
     key_if (p_id data) ''id'' @ key_if (p_date data) ''date''
     @ key_if (p_teeth_brushed data) ''teeth_brushed''
     @ key_if (p_teeth_comment data) ''teeth_comment''
     @ key_if (p_vomited data) ''vomited''
     @ key_if (p_vomited_comment data) ''vomited_comment''
     @ key_if (p_peed data) ''peed''
     @ key_if (p_peed_comment data) ''peed_comment''
     @ key_if (p_pooped data) ''pooped''
     @ key_if (p_pooped_comment data) ''pooped_comment''
     @ key_if (p_drank data) ''drank''
     @ key_if (p_drank_comment data) ''drank_comment''
     @ key_if (p_daily_notes data) ''daily_notes''
     @ key_if (p_day_status data) ''day_status''"

text \<open>One assignment \<^verbatim>\<open>f = ?\<close> of the SET clause, bound to \<^verbatim>\<open>data[f]\<close>.\<close>

definition set_column :: "DailyRecordPatch \<Rightarrow> string \<Rightarrow> DailyRecord \<Rightarrow> DailyRecord" where
  "set_column data f r =
     (if f = ''id'' then (case p_id data of Some v \<Rightarrow> r\<lparr>dr_id := v\<rparr> | None \<Rightarrow> r)
      else if f = ''date'' then (case p_date data of Some v \<Rightarrow> r\<lparr>dr_date := v\<rparr> | None \<Rightarrow> r)
      else if f = ''teeth_brushed'' then
        (case p_teeth_brushed data of Some v \<Rightarrow> r\<lparr>dr_teeth_brushed := v\<rparr> | None \<Rightarrow> r)
      else if f = ''teeth_comment'' then
        (case p_teeth_comment data of Some v \<Rightarrow> r\<lparr>dr_teeth_comment := v\<rparr> | None \<Rightarrow> r)
      else if f = ''vomited'' then
        (case p_vomited data of Some v \<Rightarrow> r\<lparr>dr_vomited := v\<rparr> | None \<Rightarrow> r)
      else if f = ''vomited_comment'' then
        (case p_vomited_comment data of Some v \<Rightarrow> r\<lparr>dr_vomited_comment := v\<rparr> | None \<Rightarrow> r)
      else if f = ''peed'' then
        (case p_peed data of Some v \<Rightarrow> r\<lparr>dr_peed := v\<rparr> | None \<Rightarrow> r)
      else if f = ''peed_comment'' then
        (case p_peed_comment data of Some v \<Rightarrow> r\<lparr>dr_peed_comment := v\<rparr> | None \<Rightarrow> r)
      else if f = ''pooped'' then
        (case p_pooped data of Some v \<Rightarrow> r\<lparr>dr_pooped := v\<rparr> | None \<Rightarrow> r)
      else if f = ''pooped_comment'' then
        (case p_pooped_comment data of Some v \<Rightarrow> r\<lparr>dr_pooped_comment := v\<rparr> | None \<Rightarrow> r)
      else if f = ''drank'' then
        (case p_drank data of Some v \<Rightarrow> r\<lparr>dr_drank := v\<rparr> | None \<Rightarrow> r)
      else if f = ''drank_comment'' then
        (case p_drank_comment data of Some v \<Rightarrow> r\<lparr>dr_drank_comment := v\<rparr> | None \<Rightarrow> r)
      else if f = ''daily_notes'' then
        (case p_daily_notes data of Some v \<Rightarrow> r\<lparr>dr_daily_notes := v\<rparr> | None \<Rightarrow> r)
      else if f = ''day_status'' then
        (case p_day_status data of Some v \<Rightarrow> r\<lparr>dr_day_status := v\<rparr> | None \<Rightarrow> r)
      else r)"

text \<open>
  \<^verbatim>\<open>updateDailyRecord\<close>: make sure the row exists, drop the keys \<^verbatim>\<open>id\<close> and \<^verbatim>\<open>date\<close>,
  return when nothing is left, otherwise run
  \<^verbatim>\<open>UPDATE daily_records SET f1 = ?, ..., updated_at = datetime('now') WHERE date = ?\<close>.
\<close>

definition updateDailyRecord :: "store \<Rightarrow> string \<Rightarrow> string \<Rightarrow> DailyRecordPatch \<Rightarrow> store" where
  "updateDailyRecord s now d data =
     (let s1 = snd (getOrCreateDailyRecord s now d);
          fields = filter (\<lambda>k. k \<noteq> ''id'' \<and> k \<noteq> ''date'') (patch_keys data)
      in if fields = [] then s1
         else s1\<lparr>daily_records :=
                  map (\<lambda>r. if dr_date r = d
                            then (fold (set_column data) fields r)\<lparr>dr_updated_at := now\<rparr>
                            else r)
                      (daily_records s1)\<rparr>)"

subsection \<open>Meal defaults, effective-dated\<close>

text \<open>\<^verbatim>\<open>ORDER BY k DESC\<close> over a list of rows.\<close>

definition order_desc :: "('a \<Rightarrow> 'k::linorder) \<Rightarrow> 'a list \<Rightarrow> 'a list" where
  "order_desc k rows = rev (sort_key k rows)"

text \<open>
  \<^verbatim>\<open>SELECT default_amount FROM meal_default_history WHERE meal_slot = ? AND effective_date <= ?
  ORDER BY effective_date DESC LIMIT 1\<close>, then \<^verbatim>\<open>result?.default_amount ?? 0\<close>.
\<close>

definition getEffectiveDefaultAmount :: "store \<Rightarrow> int \<Rightarrow> string \<Rightarrow> int" where
  "getEffectiveDefaultAmount s mealSlot d =
     (case order_desc mh_effective_date
             (filter (\<lambda>h. mh_meal_slot h = mealSlot \<and> mh_effective_date h \<le> d)
                     (meal_default_history s)) of
        [] \<Rightarrow> 0
      | result # _ \<Rightarrow> mh_default_amount result)"

text \<open>
  \<^verbatim>\<open>INSERT ... ON CONFLICT(meal_slot, effective_date) DO UPDATE SET default_amount =
  excluded.default_amount\<close>.
\<close>

definition setDefaultAmount :: "store \<Rightarrow> int \<Rightarrow> int \<Rightarrow> string \<Rightarrow> store" where
  "setDefaultAmount s mealSlot amount effectiveDate =
     (let conflict = (\<lambda>h. mh_meal_slot h = mealSlot \<and> mh_effective_date h = effectiveDate)
      in if list_ex conflict (meal_default_history s)
         then s\<lparr>meal_default_history :=
                  map (\<lambda>h. if conflict h then h\<lparr>mh_default_amount := amount\<rparr> else h)
                      (meal_default_history s)\<rparr>
         else s\<lparr>meal_default_history :=
                  meal_default_history s
                  @ [\<lparr>mh_meal_slot = mealSlot, mh_default_amount = amount,
                      mh_effective_date = effectiveDate\<rparr>]\<rparr>)"

subsection \<open>Meal entries\<close>

definition getMealConfig :: "store \<Rightarrow> MealConfig list" where
  "getMealConfig s = sort_key mc_meal_slot (meal_config s)"

definition getMealEntries :: "store \<Rightarrow> string \<Rightarrow> MealEntry list" where
  "getMealEntries s d = sort_key me_meal_slot (filter (\<lambda>e. me_date e = d) (meal_entries s))"

text \<open>
  \<^verbatim>\<open>INSERT ... ON CONFLICT(date, meal_slot) DO UPDATE SET status, actual_amount, comment\<close>;
  \<^verbatim>\<open>actualAmount ?? null\<close> and \<^verbatim>\<open>comment ?? null\<close> are the options as they stand.
\<close>

definition upsertMealEntry ::
  "store \<Rightarrow> string \<Rightarrow> int \<Rightarrow> string \<Rightarrow> int option \<Rightarrow> string option \<Rightarrow> store" where
  "upsertMealEntry s d mealSlot st actualAmount cmt =
     (let conflict = (\<lambda>e. me_date e = d \<and> me_meal_slot e = mealSlot)
      in if list_ex conflict (meal_entries s)
         then s\<lparr>meal_entries :=
                  map (\<lambda>e. if conflict e
                            then e\<lparr>me_status := st, me_actual_amount := actualAmount,
                                   me_comment := cmt\<rparr>
                            else e)
                      (meal_entries s)\<rparr>
         else s\<lparr>meal_entries :=
                  meal_entries s
                  @ [\<lparr>me_date = d, me_meal_slot = mealSlot, me_status = st,
                      me_actual_amount = actualAmount, me_comment = cmt\<rparr>]\<rparr>)"

subsection \<open>Medications\<close>

definition getMedications :: "store \<Rightarrow> bool \<Rightarrow> Medication list" where
  "getMedications s includeInactive =
     (if includeInactive then sort_key md_sort_order (medications s)
      else sort_key md_sort_order (filter (\<lambda>m. md_is_active m = 1) (medications s)))"

text \<open>
  \<^verbatim>\<open>addMedication\<close>: the sort order is one above the largest (\<^verbatim>\<open>maxOrder.max ?? 0\<close> on an
  empty table), the key is the next value of the AUTOINCREMENT sequence (medications are
  never deleted), \<^verbatim>\<open>is_active\<close> takes its default 1.
\<close>

definition addMedication :: "store \<Rightarrow> string \<Rightarrow> string \<Rightarrow> Medication \<times> store" where
  "addMedication s name timeLabel =
     (let maxOrder = (case map md_sort_order (medications s) of
                        [] \<Rightarrow> 0
                      | x # xs \<Rightarrow> fold max xs x);
          sortOrder = maxOrder + 1;
          med = \<lparr>md_id = fold max (map md_id (medications s)) 0 + 1, md_name = name,
                 md_time_label = timeLabel, md_is_active = 1, md_sort_order = sortOrder\<rparr>
      in (med, s\<lparr>medications := medications s @ [med]\<rparr>))"

definition deactivateMedication :: "store \<Rightarrow> int \<Rightarrow> store" where
  "deactivateMedication s i =
     s\<lparr>medications :=
         map (\<lambda>m. if md_id m = i then m\<lparr>md_is_active := 0\<rparr> else m) (medications s)\<rparr>"

text \<open>
  \<^verbatim>\<open>SELECT me.*, m.name, m.time_label FROM medication_entries me JOIN medications m
  ON me.medication_id = m.id WHERE me.date = ?\<close>.
\<close>

definition getMedicationEntries :: "store \<Rightarrow> string \<Rightarrow> (MedicationEntry \<times> string \<times> string) list" where
  "getMedicationEntries s d =
     concat (map (\<lambda>e. map (\<lambda>m. (e, md_name m, md_time_label m))
                          (filter (\<lambda>m. md_id m = mt_medication_id e) (medications s)))
                 (filter (\<lambda>e. mt_date e = d) (medication_entries s)))"

text \<open>
  \<^verbatim>\<open>upsertMedicationEntry\<close>: an existing entry of the date and medication has \<^verbatim>\<open>taken\<close>
  and \<^verbatim>\<open>comment\<close> overwritten. Otherwise a row is inserted, and
  \<^verbatim>\<open>FOREIGN KEY (medication_id) REFERENCES medications(id)\<close> makes the statement throw when
  no medication has that key; nothing is written then.
\<close>

datatype error = FOREIGN_KEY_constraint_failed

definition upsertMedicationEntry ::
  "store \<Rightarrow> string \<Rightarrow> int \<Rightarrow> bool \<Rightarrow> string option \<Rightarrow> error + store" where
  "upsertMedicationEntry s d medicationId taken cmt =
     (let conflict = (\<lambda>e. mt_date e = d \<and> mt_medication_id e = medicationId)
      in if list_ex conflict (medication_entries s)
         then Inr (s\<lparr>medication_entries :=
                       map (\<lambda>e. if conflict e
                                 then e\<lparr>mt_taken := (if taken then 1 else 0), mt_comment := cmt\<rparr>
                                 else e)
                           (medication_entries s)\<rparr>)
         else if list_ex (\<lambda>m. md_id m = medicationId) (medications s)
         then Inr (s\<lparr>medication_entries :=
                       medication_entries s
                       @ [\<lparr>mt_date = d, mt_medication_id = medicationId,
                           mt_taken = (if taken then 1 else 0), mt_comment = cmt\<rparr>]\<rparr>)
         else Inl FOREIGN_KEY_constraint_failed)"

text \<open>
  A run of \<^verbatim>\<open>upsertMedicationEntry\<close> calls in a loop with no transaction around it: the
  first call that throws ends the loop, and the entries written before it stay written.
  The left result carries the store as the exception leaves it.
\<close>

fun upsert_medications ::
  "string \<Rightarrow> (int \<times> bool \<times> string option) list \<Rightarrow> store \<Rightarrow> (error \<times> store) + store" where
  "upsert_medications d [] s = Inr s"
| "upsert_medications d ((medicationId, taken, cmt) # meds) s =
     (case upsertMedicationEntry s d medicationId taken cmt of
        Inl e \<Rightarrow> Inl (e, s)
      | Inr s' \<Rightarrow> upsert_medications d meds s')"

subsection \<open>Full day data\<close>

record MealWithStatus =
  mw_meal_slot :: int
  mw_label :: string
  mw_default_amount :: int
  mw_status :: string
  mw_actual_amount :: "int option"
  mw_comment :: "string option"

record MedicationWithStatus =
  ms_medication :: Medication
  ms_taken :: int
  ms_comment :: "string option"

record FullDayData =
  fd_record :: DailyRecord
  fd_medications :: "MedicationWithStatus list"
  fd_meals :: "MealWithStatus list"

text \<open>
  \<^verbatim>\<open>getFullDayData\<close>, the handler of \<^verbatim>\<open>GET /api/day/:date\<close>. The returned object is the
  record with \<^verbatim>\<open>date\<close> overwritten by the argument, the active medications merged with
  the medication entries of the day, and the meal slots merged with the meal entries of
  the day.
\<close>

definition getFullDayData :: "store \<Rightarrow> string \<Rightarrow> string \<Rightarrow> FullDayData \<times> store" where
  "getFullDayData s now d =
     (let (record, s1) = getOrCreateDailyRecord s now d;
          meds = getMedications s1 False;
          medicationEntries = getMedicationEntries s1 d;
          mealConfig = getMealConfig s1;
          mealEntries = getMealEntries s1 d;
          medicationsWithStatus =
            map (\<lambda>med.
                   let entry = find (\<lambda>e. mt_medication_id (fst e) = md_id med) medicationEntries
                   in \<lparr>ms_medication = med,
                       ms_taken = (case entry of Some e \<Rightarrow> mt_taken (fst e) | None \<Rightarrow> 0),
                       ms_comment = (case entry of Some e \<Rightarrow> mt_comment (fst e) | None \<Rightarrow> None)\<rparr>)
                meds;
          mealsWithStatus =
            map (\<lambda>config.
                   let entry = find (\<lambda>e. me_meal_slot e = mc_meal_slot config) mealEntries;
                       effectiveDefault = getEffectiveDefaultAmount s1 (mc_meal_slot config) d
                   in \<lparr>mw_meal_slot = mc_meal_slot config,
                       mw_label = mc_label config,
                       mw_default_amount = effectiveDefault,
                       mw_status = (case entry of Some e \<Rightarrow> me_status e | None \<Rightarrow> ''ate_fully''),
                       mw_actual_amount = (case entry of Some e \<Rightarrow> me_actual_amount e | None \<Rightarrow> None),
                       mw_comment = (case entry of Some e \<Rightarrow> me_comment e | None \<Rightarrow> None)\<rparr>)
                mealConfig
      in (\<lparr>fd_record = record\<lparr>dr_date := d\<rparr>, fd_medications = medicationsWithStatus,
           fd_meals = mealsWithStatus\<rparr>, s1))"

section \<open>Stored status, issues and trends (status.ts)\<close>

text \<open>
  \<^verbatim>\<open>updateDayStatus\<close>: without a row for the date the result is \<^verbatim>\<open>'GREEN'\<close> and nothing
  is written; otherwise the classifier runs on the row's counts and on the statuses of
  the day's meal entries, and the result is stored in \<^verbatim>\<open>day_status\<close>.
\<close>

definition updateDayStatus :: "store \<Rightarrow> string \<Rightarrow> DayStatus \<times> store" where
  "updateDayStatus s d =
     (case find (\<lambda>r. dr_date r = d) (daily_records s) of
        None \<Rightarrow> (GREEN, s)
      | Some record \<Rightarrow>
          (let meals = map me_status (filter (\<lambda>e. me_date e = d) (meal_entries s));
               status = calculateDayStatus
                          \<lparr>vomited = dr_vomited record, peed = dr_peed record,
                           pooped = dr_pooped record, meals = meals\<rparr>
           in (status,
               s\<lparr>daily_records :=
                    map (\<lambda>r. if dr_date r = d then r\<lparr>dr_day_status := status_text status\<rparr> else r)
                        (daily_records s)\<rparr>)))"

text \<open>
  The text of a number inside a template literal. A whole number that is a safe integer
  (of magnitude below \<open>2^53\<close>) prints as its decimal digits. Beyond that the runtime prints
  the shortest decimal that reads back as the same double, padded with zeros or in exponent
  form (\<^verbatim>\<open>18446744073709552000\<close> for \<open>2^64\<close>, \<^verbatim>\<open>1e+21\<close> for \<open>10^21\<close>); that text is decided by
  the runtime and is the parameter \<open>beyond\<close>.
\<close>

fun digits :: "nat \<Rightarrow> string" where
  "digits n = (if n < 10 then [''0123456789'' ! n]
               else digits (n div 10) @ [''0123456789'' ! (n mod 10)])"

definition number_text :: "(int \<Rightarrow> string) \<Rightarrow> int \<Rightarrow> string" where
  "number_text beyond i =
     (if \<bar>i\<bar> \<le> 9007199254740991
      then (if i < 0 then CHR ''-'' # digits (nat (- i)) else digits (nat i))
      else beyond i)"

text \<open>
  \<^verbatim>\<open>mealLabels[meal.meal_slot]\<close> inside a template literal: an index outside the array
  reads \<^verbatim>\<open>undefined\<close>, which prints as that word.
\<close>

definition mealLabels :: "string list" where
  "mealLabels = ['''', ''morning'', ''day'', ''evening'', ''night'']"

definition label_text :: "int \<Rightarrow> string" where
  "label_text slot =
     (if 0 \<le> slot \<and> nat slot < length mealLabels then mealLabels ! nat slot else ''undefined'')"

definition push :: "'a list \<Rightarrow> 'a \<Rightarrow> 'a list" where
  "push issues x = issues @ [x]"

definition getDayIssues :: "(int \<Rightarrow> string) \<Rightarrow> store \<Rightarrow> string \<Rightarrow> string list" where
  "getDayIssues beyond s d =
     (case find (\<lambda>r. dr_date r = d) (daily_records s) of
        None \<Rightarrow> []
      | Some record \<Rightarrow>
          (let meals = filter (\<lambda>e. me_date e = d) (meal_entries s);
               issues0 = [];
               issues1 = (if dr_vomited record > 0
                          then push issues0 (''Vomit: '' @ number_text beyond (dr_vomited record))
                          else issues0);
               issues2 = (if dr_peed record = 0 then push issues1 ''No pee'' else issues1);
               issues3 = (if dr_pooped record = 0 then push issues2 ''No poop'' else issues2);
               missedMeals = filter (\<lambda>m. me_status m \<noteq> ''ate_fully'') meals
           in fold (\<lambda>meal issues.
                      push issues (''Meal '' @ number_text beyond (me_meal_slot meal) @ '' (''
                                   @ label_text (me_meal_slot meal) @ '') not eaten fully''))
                   missedMeals issues3))"

text \<open>\<^verbatim>\<open>WHERE date BETWEEN ? AND ?\<close>.\<close>

definition between :: "string \<Rightarrow> string \<Rightarrow> string \<Rightarrow> bool" where
  "between startDate endDate d \<longleftrightarrow> startDate \<le> d \<and> d \<le> endDate"

text \<open>\<^verbatim>\<open>SELECT k, COUNT(*) ... GROUP BY k\<close> over the values of the grouping column.\<close>

definition group_count :: "'k list \<Rightarrow> ('k \<times> nat) list" where
  "group_count ks = map (\<lambda>k. (k, length (filter (\<lambda>x. x = k) ks))) (remdups ks)"

text \<open>\<^verbatim>\<open>statusCounts.find(s => s.day_status === k)?.count ?? 0\<close>.\<close>

definition count_of :: "(string \<times> nat) list \<Rightarrow> string \<Rightarrow> nat" where
  "count_of statusCounts k =
     (case find (\<lambda>s. fst s = k) statusCounts of Some s \<Rightarrow> snd s | None \<Rightarrow> 0)"

record StatusCounts =
  sc_RED :: nat
  sc_ORANGE :: nat
  sc_GREEN :: nat

record TrendsSummary =
  period_start :: string
  period_end :: string
  totalDays :: nat
  statusCounts :: StatusCounts
  daysWithVomit :: nat
  daysWithoutVomit :: int
  peeDays :: nat
  poopDays :: nat
  noPeeDates :: "string list"
  noPoopDates :: "string list"
  meals_total :: nat
  meals_missed :: nat
  dailyMeals :: "(string \<times> nat) list"
  dailyVomit :: "(string \<times> int) list"

definition getTrendsSummary :: "store \<Rightarrow> string \<Rightarrow> string \<Rightarrow> TrendsSummary" where
  "getTrendsSummary s startDate endDate =
     (let days = filter (\<lambda>r. between startDate endDate (dr_date r)) (daily_records s);
          entries = filter (\<lambda>e. between startDate endDate (me_date e)) (meal_entries s);
          totalDaysCount = length (remdups (map dr_date days));
          statusRows = group_count (map dr_day_status days);
          vomitDays = length (filter (\<lambda>r. dr_vomited r > 0) days);
          peeDaysCount = length (filter (\<lambda>r. dr_peed r > 0) days);
          poopDaysCount = length (filter (\<lambda>r. dr_pooped r > 0) days);
          noPeeDays = order_desc dr_date (filter (\<lambda>r. dr_peed r = 0) days);
          noPoopDays = order_desc dr_date (filter (\<lambda>r. dr_pooped r = 0) days);
          totalMeals = length entries;
          missedMeals = length (filter (\<lambda>e. me_status e \<noteq> ''ate_fully'') entries);
          dailyMealStats =
            map (\<lambda>d. (d, length (filter (\<lambda>e. me_date e = d \<and> me_status e \<noteq> ''ate_fully'')
                                          entries)))
                (sort (remdups (map me_date entries)));
          dailyVomitStats = map (\<lambda>r. (dr_date r, dr_vomited r)) (sort_key dr_date days)
      in \<lparr>period_start = startDate, period_end = endDate,
          totalDays = totalDaysCount,
          statusCounts = \<lparr>sc_RED = count_of statusRows ''RED'',
                          sc_ORANGE = count_of statusRows ''ORANGE'',
                          sc_GREEN = count_of statusRows ''GREEN''\<rparr>,
          daysWithVomit = vomitDays,
          daysWithoutVomit = int totalDaysCount - int vomitDays,
          peeDays = peeDaysCount, poopDays = poopDaysCount,
          noPeeDates = map dr_date noPeeDays, noPoopDates = map dr_date noPoopDays,
          meals_total = totalMeals, meals_missed = missedMeals,
          dailyMeals = dailyMealStats, dailyVomit = dailyVomitStats\<rparr>)"

record ProblemDay =
  pd_date :: string
  pd_status :: string
  pd_issues :: "string list"

text \<open>
  \<^verbatim>\<open>SELECT date, day_status FROM daily_records WHERE date BETWEEN ? AND ?
  AND day_status != 'GREEN' ORDER BY date DESC\<close>, each row with its issues.
\<close>

definition getProblemDays ::
  "(int \<Rightarrow> string) \<Rightarrow> store \<Rightarrow> string \<Rightarrow> string \<Rightarrow> ProblemDay list" where
  "getProblemDays beyond s startDate endDate =
     (let problemDays =
            order_desc dr_date
              (filter (\<lambda>r. between startDate endDate (dr_date r) \<and> dr_day_status r \<noteq> ''GREEN'')
                      (daily_records s))
      in map (\<lambda>day. \<lparr>pd_date = dr_date day, pd_status = dr_day_status day,
                      pd_issues = getDayIssues beyond s (dr_date day)\<rparr>)
             problemDays)"

section \<open>Request handlers (app.ts) and the import script (import.ts)\<close>

text \<open>
  The body of \<^verbatim>\<open>PUT /api/day/:date\<close>: the record fields (\<^verbatim>\<open>recordData\<close>, the body without
  \<^verbatim>\<open>medications\<close> and \<^verbatim>\<open>meals\<close>), the medications and the meals.
\<close>

record MedicationUpdate =
  med_id :: int
  med_taken :: bool
  med_comment :: "string option"

record MealUpdate =
  slot :: int
  status :: string
  actual_amount :: "int option"
  set_default_amount :: "int option"
  comment :: "string option"

record PutBody =
  b_teeth_brushed :: "int option"
  b_teeth_comment :: "string option"
  b_vomited :: "int option"
  b_vomited_comment :: "string option"
  b_peed :: "int option"
  b_peed_comment :: "string option"
  b_pooped :: "int option"
  b_pooped_comment :: "string option"
  b_drank :: "int option"
  b_drank_comment :: "string option"
  b_daily_notes :: "string option"
  b_medications :: "MedicationUpdate list option"
  b_meals :: "MealUpdate list option"

definition recordData :: "PutBody \<Rightarrow> DailyRecordPatch" where
  "recordData body =
     \<lparr>p_id = None, p_date = None,
      p_teeth_brushed = b_teeth_brushed body,
      p_teeth_comment = map_option Some (b_teeth_comment body),
      p_vomited = b_vomited body,
      p_vomited_comment = map_option Some (b_vomited_comment body),
      p_peed = b_peed body,
      p_peed_comment = map_option Some (b_peed_comment body),
      p_pooped = b_pooped body,
      p_pooped_comment = map_option Some (b_pooped_comment body),
      p_drank = b_drank body,
      p_drank_comment = map_option Some (b_drank_comment body),
      p_daily_notes = map_option Some (b_daily_notes body),
      p_day_status = None\<rparr>"

definition put_meal :: "string \<Rightarrow> MealUpdate \<Rightarrow> store \<Rightarrow> store" where
  "put_meal d meal s =
     (let s1 = (case set_default_amount meal of
                  Some amount \<Rightarrow> setDefaultAmount s (slot meal) amount d
                | None \<Rightarrow> s)
      in upsertMealEntry s1 d (slot meal) (status meal) (actual_amount meal) (comment meal))"

text \<open>
  The handler of \<^verbatim>\<open>PUT /api/day/:date\<close>: update the record when the body names a record
  field, write the medication entries, write the meals, recompute the stored status,
  answer with the full day data. There is no transaction and no \<^verbatim>\<open>try\<close>: when a medication
  entry throws, the request fails and the store stays as the statements before it left it,
  with the record updated and its status not recomputed.
\<close>

definition put_day ::
  "store \<Rightarrow> string \<Rightarrow> string \<Rightarrow> PutBody \<Rightarrow> (error + FullDayData) \<times> store" where
  "put_day s now d body =
     (let s1 = (if patch_keys (recordData body) \<noteq> []
                then updateDailyRecord s now d (recordData body) else s)
      in case (case b_medications body of
                 None \<Rightarrow> Inr s1
               | Some meds \<Rightarrow>
                   upsert_medications d
                     (map (\<lambda>med. (med_id med, med_taken med, med_comment med)) meds) s1) of
           Inl (e, s2) \<Rightarrow> (Inl e, s2)
         | Inr s2 \<Rightarrow>
             (let s3 = (case b_meals body of None \<Rightarrow> s2 | Some ms \<Rightarrow> fold (put_meal d) ms s2);
                  s4 = snd (updateDayStatus s3 d);
                  (data, s5) = getFullDayData s4 now d
              in (Inr data, s5)))"

text \<open>
  The handler of \<^verbatim>\<open>PUT /api/meal-config/:slot\<close>:
  \<^verbatim>\<open>const date = effective_date || today\<close>, where an empty string counts as absent.
\<close>

definition put_meal_config :: "store \<Rightarrow> string \<Rightarrow> int \<Rightarrow> int \<Rightarrow> string option \<Rightarrow> store" where
  "put_meal_config s today mealSlot amount effective_date =
     (let d = (case effective_date of
                 None \<Rightarrow> today
               | Some e \<Rightarrow> if e = [] then today else e)
      in setDefaultAmount s mealSlot amount d)"

text \<open>
  The handler of \<^verbatim>\<open>PUT /api/medications/:id\<close>: the columns present in the body are set on
  the medication with that key; an empty body writes nothing.
\<close>

definition put_medication ::
  "store \<Rightarrow> int \<Rightarrow> string option \<Rightarrow> string option \<Rightarrow> int option \<Rightarrow> store" where
  "put_medication s i name time_label sort_order =
     s\<lparr>medications :=
         map (\<lambda>m. if md_id m = i
                   then m\<lparr>md_name := (case name of Some v \<Rightarrow> v | None \<Rightarrow> md_name m),
                          md_time_label := (case time_label of Some v \<Rightarrow> v
                                            | None \<Rightarrow> md_time_label m),
                          md_sort_order := (case sort_order of Some v \<Rightarrow> v
                                            | None \<Rightarrow> md_sort_order m)\<rparr>
                   else m)
             (medications s)\<rparr>"

text \<open>
  The import script. Before the rows it looks up the keys of seven medications among all
  medications, by name and time label, and adds the three historic ones as inactive when
  they are missing. The keys of the four current ones stay undefined when not found.
\<close>

record ImportIds =
  normolactMorningId :: "int option"
  normolactEveningId :: "int option"
  renalvetId :: "int option"
  fortifloraId :: "int option"
  robekserId :: "int option"
  gabapentinMorningId :: "int option"
  gabapentinEveningId :: "int option"

definition find_id :: "Medication list \<Rightarrow> (Medication \<Rightarrow> bool) \<Rightarrow> int option" where
  "find_id existingMeds p = map_option md_id (find p existingMeds)"

definition add_inactive :: "int option \<Rightarrow> string \<Rightarrow> string \<Rightarrow> store \<Rightarrow> int option \<times> store" where
  "add_inactive known name timeLabel s =
     (case known of
        Some i \<Rightarrow> (Some i, s)
      | None \<Rightarrow>
          (let (med, s1) = addMedication s name timeLabel
           in (Some (md_id med), deactivateMedication s1 (md_id med))))"

definition import_setup :: "store \<Rightarrow> ImportIds \<times> store" where
  "import_setup s =
     (let existingMeds = getMedications s True;
          (rob, s1) = add_inactive (find_id existingMeds (\<lambda>m. md_name m = ''Robeksera''))
                        ''Robeksera'' ''with food or after'' s;
          (gabM, s2) = add_inactive
                         (find_id existingMeds
                            (\<lambda>m. md_name m = ''Gabapentin'' \<and> md_time_label m = ''morning''))
                         ''Gabapentin'' ''morning'' s1;
          (gabE, s3) = add_inactive
                         (find_id existingMeds
                            (\<lambda>m. md_name m = ''Gabapentin'' \<and> md_time_label m = ''evening''))
                         ''Gabapentin'' ''evening'' s2
      in (\<lparr>normolactMorningId =
             find_id existingMeds
               (\<lambda>m. md_name m = ''Normolact'' \<and> md_time_label m = ''morning''),
           normolactEveningId =
             find_id existingMeds
               (\<lambda>m. md_name m = ''Normolact'' \<and> md_time_label m = ''evening''),
           renalvetId = find_id existingMeds (\<lambda>m. md_name m = ''Renalvet''),
           fortifloraId = find_id existingMeds (\<lambda>m. md_name m = ''FortiFlora''),
           robekserId = rob, gabapentinMorningId = gabM, gabapentinEveningId = gabE\<rparr>, s3))"

text \<open>
  One data row after parsing. The row is processed inside \<^verbatim>\<open>try\<close>: when a statement throws,
  the rest of the row is skipped, what was written stays written, and the script goes on
  with the next row.
\<close>

record CsvDay =
  csv_teeth_brushed :: bool
  csv_pooped :: int
  csv_peed :: int
  csv_drank :: int
  csv_vomited :: int
  csv_robeksera :: bool
  csv_gabapentinMorning :: bool
  csv_gabapentinEvening :: bool
  csv_normolactMorning :: bool
  csv_normolactEvening :: bool
  csv_renalvet :: bool
  csv_fortiflora :: bool
  csv_comments :: string
  csv_meal1 :: "string \<times> string option"
  csv_meal2 :: "string \<times> string option"
  csv_meal3 :: "string \<times> string option"
  csv_meal4 :: "string \<times> string option"

definition entry_if :: "int option \<Rightarrow> bool \<Rightarrow> (int \<times> bool \<times> string option) list" where
  "entry_if i taken = (case i of None \<Rightarrow> [] | Some medicationId \<Rightarrow> [(medicationId, taken, None)])"

definition import_row :: "ImportIds \<Rightarrow> store \<Rightarrow> string \<Rightarrow> string \<Rightarrow> CsvDay \<Rightarrow> store" where
  "import_row ids s now d row =
     (let s1 = updateDailyRecord s now d
                 \<lparr>p_id = None, p_date = None,
                  p_teeth_brushed = Some (if csv_teeth_brushed row then 1 else 0),
                  p_teeth_comment = None,
                  p_vomited = Some (csv_vomited row), p_vomited_comment = None,
                  p_peed = Some (csv_peed row), p_peed_comment = None,
                  p_pooped = Some (csv_pooped row), p_pooped_comment = None,
                  p_drank = Some (csv_drank row), p_drank_comment = None,
                  p_daily_notes =
                    Some (if csv_comments row = [] then None else Some (csv_comments row)),
                  p_day_status = None\<rparr>
      in case upsert_medications d
                (entry_if (normolactMorningId ids) (csv_normolactMorning row)
                 @ entry_if (normolactEveningId ids) (csv_normolactEvening row)
                 @ entry_if (renalvetId ids) (csv_renalvet row)
                 @ entry_if (fortifloraId ids) (csv_fortiflora row)
                 @ entry_if (robekserId ids) (csv_robeksera row)
                 @ entry_if (gabapentinMorningId ids) (csv_gabapentinMorning row)
                 @ entry_if (gabapentinEveningId ids) (csv_gabapentinEvening row)) s1 of
           Inl (e, s2) \<Rightarrow> s2
         | Inr s2 \<Rightarrow>
             (let s3 = upsertMealEntry s2 d 1 (fst (csv_meal1 row)) None (snd (csv_meal1 row));
                  s4 = upsertMealEntry s3 d 2 (fst (csv_meal2 row)) None (snd (csv_meal2 row));
                  s5 = upsertMealEntry s4 d 3 (fst (csv_meal3 row)) None (snd (csv_meal3 row));
                  s6 = upsertMealEntry s5 d 4 (fst (csv_meal4 row)) None (snd (csv_meal4 row))
              in snd (updateDayStatus s6 d)))"

text \<open>The whole script on its parsed rows, each with its date and the clock reading.\<close>

definition import_csv :: "store \<Rightarrow> (string \<times> string \<times> CsvDay) list \<Rightarrow> store" where
  "import_csv s rows =
     (let (ids, s1) = import_setup s
      in fold (\<lambda>(now, d, row) s'. import_row ids s' now d row) rows s1)"

subsection \<open>Reachable stores\<close>

text \<open>
  The requests that write to the store, each with the clock reading it is served at, and
  a run of the import script. A store is reachable when a sequence of requests produces it
  from the initial store; a request that fails leaves the store as its handler left it.
  The handlers are synchronous, so a request is served as a whole before the next one.
  Their arguments have the types the source declares (the body of a day update has no
  \<^verbatim>\<open>id\<close>, \<^verbatim>\<open>date\<close> or \<^verbatim>\<open>day_status\<close> field). The trends and problem-day requests only
  read and are not listed.
\<close>

datatype request =
    GetDay string string
  | PutDay string string PutBody
  | PutMealConfig string int int "string option"
  | PostMedication string string
  | PutMedication int "string option" "string option" "int option"
  | DeleteMedication int
  | ImportCsv "(string \<times> string \<times> CsvDay) list"

fun handle :: "request \<Rightarrow> store \<Rightarrow> store" where
  "handle (GetDay now d) s = snd (getFullDayData s now d)"
| "handle (PutDay now d body) s = snd (put_day s now d body)"
| "handle (PutMealConfig today mealSlot amount effective_date) s =
     put_meal_config s today mealSlot amount effective_date"
| "handle (PostMedication name time_label) s = snd (addMedication s name time_label)"
| "handle (PutMedication i name time_label sort_order) s =
     put_medication s i name time_label sort_order"
| "handle (DeleteMedication i) s = deactivateMedication s i"
| "handle (ImportCsv rows) s = import_csv s rows"

definition run :: "request list \<Rightarrow> store" where
  "run reqs = fold handle reqs initial_store"

section \<open>Notions used in the statements\<close>

text \<open>
  The uniqueness constraints of the schema: \<^verbatim>\<open>UNIQUE(meal_slot, effective_date)\<close> and
  \<^verbatim>\<open>UNIQUE(date, meal_slot)\<close>.
\<close>

definition unique_versions :: "MealDefaultHistory list \<Rightarrow> bool" where
  "unique_versions h = distinct (map (\<lambda>v. (mh_meal_slot v, mh_effective_date v)) h)"

definition unique_meals :: "MealEntry list \<Rightarrow> bool" where
  "unique_meals es = distinct (map (\<lambda>e. (me_date e, me_meal_slot e)) es)"

text \<open>The number of versions stored for a pair of slot and effective date.\<close>

definition version_count :: "store \<Rightarrow> int \<Rightarrow> string \<Rightarrow> nat" where
  "version_count s mealSlot d =
     length (filter (\<lambda>v. mh_meal_slot v = mealSlot \<and> mh_effective_date v = d)
                    (meal_default_history s))"

text \<open>
  A version is in force for a slot on a query date when it is a version of that slot, its
  effective date is not after the query date, and no version of the slot that is not after
  the query date has a later effective date.
\<close>

definition in_force :: "store \<Rightarrow> int \<Rightarrow> string \<Rightarrow> MealDefaultHistory \<Rightarrow> bool" where
  "in_force s mealSlot q v \<longleftrightarrow>
     v \<in> set (meal_default_history s) \<and> mh_meal_slot v = mealSlot \<and> mh_effective_date v \<le> q
     \<and> (\<forall>w \<in> set (meal_default_history s).
           mh_meal_slot w = mealSlot \<and> mh_effective_date w \<le> q
           \<longrightarrow> mh_effective_date w \<le> mh_effective_date v)"

text \<open>
  Merging the named fields of a patch into a record, field by field; the key and the date
  are not among the fields that can be merged.
\<close>

definition merge_named :: "DailyRecordPatch \<Rightarrow> DailyRecord \<Rightarrow> DailyRecord" where
  "merge_named data r =
     r\<lparr>dr_teeth_brushed := (case p_teeth_brushed data of Some v \<Rightarrow> v | None \<Rightarrow> dr_teeth_brushed r),
       dr_teeth_comment := (case p_teeth_comment data of Some v \<Rightarrow> v | None \<Rightarrow> dr_teeth_comment r),
       dr_vomited := (case p_vomited data of Some v \<Rightarrow> v | None \<Rightarrow> dr_vomited r),
       dr_vomited_comment := (case p_vomited_comment data of Some v \<Rightarrow> v | None \<Rightarrow> dr_vomited_comment r),
       dr_peed := (case p_peed data of Some v \<Rightarrow> v | None \<Rightarrow> dr_peed r),
       dr_peed_comment := (case p_peed_comment data of Some v \<Rightarrow> v | None \<Rightarrow> dr_peed_comment r),
       dr_pooped := (case p_pooped data of Some v \<Rightarrow> v | None \<Rightarrow> dr_pooped r),
       dr_pooped_comment := (case p_pooped_comment data of Some v \<Rightarrow> v | None \<Rightarrow> dr_pooped_comment r),
       dr_drank := (case p_drank data of Some v \<Rightarrow> v | None \<Rightarrow> dr_drank r),
       dr_drank_comment := (case p_drank_comment data of Some v \<Rightarrow> v | None \<Rightarrow> dr_drank_comment r),
       dr_daily_notes := (case p_daily_notes data of Some v \<Rightarrow> v | None \<Rightarrow> dr_daily_notes r),
       dr_day_status := (case p_day_status data of Some v \<Rightarrow> v | None \<Rightarrow> dr_day_status r)\<rparr>"

text \<open>
  The classification of a stored day recomputed from its raw data: the classifier applied
  to the counts of the record and the statuses of the meal entries of its date.
\<close>

definition recomputed_status :: "store \<Rightarrow> DailyRecord \<Rightarrow> DayStatus" where
  "recomputed_status s r =
     calculateDayStatus
       \<lparr>vomited = dr_vomited r, peed = dr_peed r, pooped = dr_pooped r,
        meals = map me_status (filter (\<lambda>e. me_date e = dr_date r) (meal_entries s))\<rparr>"

text \<open>A stored status is fresh when it is the text of the recomputed classification.\<close>

definition status_fresh :: "store \<Rightarrow> DailyRecord \<Rightarrow> bool" where
  "status_fresh s r \<longleftrightarrow> dr_day_status r = status_text (recomputed_status s r)"

text \<open>
  The invariant of the reachable stores: one record per date, every stored status one of
  the three status texts, and the two uniqueness constraints.
\<close>

definition store_inv :: "store \<Rightarrow> bool" where
  "store_inv s \<longleftrightarrow>
     distinct (map dr_date (daily_records s))
     \<and> list_all (\<lambda>r. dr_day_status r = ''RED'' \<or> dr_day_status r = ''ORANGE''
                       \<or> dr_day_status r = ''GREEN'')
                 (daily_records s)
     \<and> unique_versions (meal_default_history s)
     \<and> unique_meals (meal_entries s)"

text \<open>A patch names a field when a key other than \<^verbatim>\<open>id\<close> and \<^verbatim>\<open>date\<close> is present.\<close>

definition names_field :: "DailyRecordPatch \<Rightarrow> bool" where
  "names_field data \<longleftrightarrow>
     p_teeth_brushed data \<noteq> None \<or> p_teeth_comment data \<noteq> None
     \<or> p_vomited data \<noteq> None \<or> p_vomited_comment data \<noteq> None
     \<or> p_peed data \<noteq> None \<or> p_peed_comment data \<noteq> None
     \<or> p_pooped data \<noteq> None \<or> p_pooped_comment data \<noteq> None
     \<or> p_drank data \<noteq> None \<or> p_drank_comment data \<noteq> None
     \<or> p_daily_notes data \<noteq> None \<or> p_day_status data \<noteq> None"

text \<open>
  The status buckets and the problem days as the specification describes them: every day
  of the range classified anew from its raw data.
\<close>

definition recomputed_counts :: "store \<Rightarrow> string \<Rightarrow> string \<Rightarrow> StatusCounts" where
  "recomputed_counts s startDate endDate =
     (let days = filter (\<lambda>r. between startDate endDate (dr_date r)) (daily_records s)
      in \<lparr>sc_RED = length (filter (\<lambda>r. recomputed_status s r = RED) days),
          sc_ORANGE = length (filter (\<lambda>r. recomputed_status s r = ORANGE) days),
          sc_GREEN = length (filter (\<lambda>r. recomputed_status s r = GREEN) days)\<rparr>)"

definition recomputed_problem_days :: "store \<Rightarrow> string \<Rightarrow> string \<Rightarrow> (string \<times> string) list" where
  "recomputed_problem_days s startDate endDate =
     map (\<lambda>r. (dr_date r, status_text (recomputed_status s r)))
         (order_desc dr_date
            (filter (\<lambda>r. between startDate endDate (dr_date r) \<and> recomputed_status s r \<noteq> GREEN)
                    (daily_records s)))"


section \<open>Example histories\<close>

text \<open>
  Four requests: a day with vomit only, a day with vomit and no elimination, a day that is
  only read, and a day for which only a meal is written.
\<close>

definition example_requests :: "request list" where
  "example_requests =
     [PutDay ''2025-01-10 08:00:00'' ''2025-01-10''
        \<lparr>b_teeth_brushed = None, b_teeth_comment = None, b_vomited = Some 1,
         b_vomited_comment = None, b_peed = Some 2, b_peed_comment = None,
         b_pooped = Some 1, b_pooped_comment = None, b_drank = None,
         b_drank_comment = None, b_daily_notes = None,
         b_medications = Some [\<lparr>med_id = 1, med_taken = True, med_comment = None\<rparr>],
         b_meals = Some [\<lparr>slot = 1, status = ''ate_fully'', actual_amount = Some 20,
                          set_default_amount = Some 20, comment = None\<rparr>]\<rparr>,
      PutDay ''2025-01-11 09:00:00'' ''2025-01-11''
        \<lparr>b_teeth_brushed = None, b_teeth_comment = None, b_vomited = Some 2,
         b_vomited_comment = None, b_peed = Some 0, b_peed_comment = None,
         b_pooped = None, b_pooped_comment = None, b_drank = None,
         b_drank_comment = None, b_daily_notes = None, b_medications = None,
         b_meals = Some [\<lparr>slot = 3, status = ''not_fully'', actual_amount = None,
                          set_default_amount = None, comment = None\<rparr>]\<rparr>,
      GetDay ''2025-01-12 10:00:00'' ''2025-01-12'',
      PutDay ''2025-01-13 11:00:00'' ''2025-01-13''
        \<lparr>b_teeth_brushed = None, b_teeth_comment = None, b_vomited = None,
         b_vomited_comment = None, b_peed = None, b_peed_comment = None,
         b_pooped = None, b_pooped_comment = None, b_drank = None,
         b_drank_comment = None, b_daily_notes = None, b_medications = None,
         b_meals = Some [\<lparr>slot = 2, status = ''skipped'', actual_amount = None,
                          set_default_amount = None, comment = None\<rparr>]\<rparr>]"


section \<open>Verification\<close>

subsection \<open>Properties of the classifier\<close>

lemma some_missed_iff: "some_missed ms \<longleftrightarrow> (\<exists>m \<in> set ms. m \<noteq> ''ate_fully'')"
  by (induction ms) auto

lemma some_missed_update:
  "some_missed (ms[i := ''ate_fully'']) \<Longrightarrow> some_missed ms"
proof -
  assume h: "some_missed (ms[i := ''ate_fully''])"
  then obtain m where m: "m \<in> set (ms[i := ''ate_fully''])" "m \<noteq> ''ate_fully''"
    unfolding some_missed_iff by blast
  have "set (ms[i := ''ate_fully'']) \<subseteq> insert ''ate_fully'' (set ms)"
    by (rule set_update_subset_insert)
  with m have "m \<in> set ms" by blast
  with m(2) show ?thesis unfolding some_missed_iff by blast
qed

text \<open>
  C1. For every input the classifier returns the result of the first matching rule of the
  ordered rule list (RED for vomit together with no pee, no poop or a missed meal; RED for
  no pee and no poop; ORANGE for vomit; ORANGE for no pee or no poop; ORANGE for a missed
  meal; GREEN otherwise). With an empty meal sequence the meal condition is false, so the
  result is decided by the counts alone and is GREEN when there is no vomit and both
  elimination counts are non-zero.
\<close>

theorem C1_first_match:
  "first_match (spec_rules v p q ms)
     = Some (calculateDayStatus \<lparr>vomited = v, peed = p, pooped = q, meals = ms\<rparr>)
   \<and> calculateDayStatus \<lparr>vomited = v, peed = p, pooped = q, meals = []\<rparr>
     = (if v > 0 \<and> (p = 0 \<or> q = 0) then RED
        else if p = 0 \<and> q = 0 then RED
        else if v > 0 then ORANGE
        else if p = 0 \<or> q = 0 then ORANGE
        else GREEN)"
  by (simp add: calculateDayStatus_def spec_rules_def some_missed_iff Let_def)

theorem C1_first_match_witness:
  "first_match (spec_rules 2 0 1 [''ate_fully''])
     = Some (calculateDayStatus \<lparr>vomited = 2, peed = 0, pooped = 1, meals = [''ate_fully'']\<rparr>)
   \<and> calculateDayStatus \<lparr>vomited = 2, peed = 0, pooped = 1, meals = [''ate_fully'']\<rparr> = RED
   \<and> calculateDayStatus \<lparr>vomited = 0, peed = 1, pooped = 1, meals = []\<rparr> = GREEN"
  using C1_first_match [of 2 0 1 "[''ate_fully'']"] C1_first_match [of 0 1 1 "[]"]
  by (simp add: calculateDayStatus_def)

text \<open>
  C5. The classifier is monotone in severity: setting the vomit count to zero, replacing a
  zero pee count or a zero poop count by a positive one, or changing one meal status to
  \<^verbatim>\<open>ate_fully\<close>, with everything else fixed, never gives a result of higher severity. In
  particular zero pee together with zero poop is RED for every vomit count and every meal
  sequence.
\<close>

theorem C5_monotone:
  "severity (calculateDayStatus \<lparr>vomited = 0, peed = p, pooped = q, meals = ms\<rparr>)
     \<le> severity (calculateDayStatus \<lparr>vomited = v, peed = p, pooped = q, meals = ms\<rparr>)
   \<and> (0 < p' \<longrightarrow>
        severity (calculateDayStatus \<lparr>vomited = v, peed = p', pooped = q, meals = ms\<rparr>)
          \<le> severity (calculateDayStatus \<lparr>vomited = v, peed = 0, pooped = q, meals = ms\<rparr>))
   \<and> (0 < q' \<longrightarrow>
        severity (calculateDayStatus \<lparr>vomited = v, peed = p, pooped = q', meals = ms\<rparr>)
          \<le> severity (calculateDayStatus \<lparr>vomited = v, peed = p, pooped = 0, meals = ms\<rparr>))
   \<and> severity (calculateDayStatus
                  \<lparr>vomited = v, peed = p, pooped = q, meals = ms[i := ''ate_fully'']\<rparr>)
        \<le> severity (calculateDayStatus \<lparr>vomited = v, peed = p, pooped = q, meals = ms\<rparr>)
   \<and> calculateDayStatus \<lparr>vomited = v, peed = 0, pooped = 0, meals = ms\<rparr> = RED"
proof -
  have a: "severity (calculateDayStatus \<lparr>vomited = 0, peed = p, pooped = q, meals = ms\<rparr>)
     \<le> severity (calculateDayStatus \<lparr>vomited = v, peed = p, pooped = q, meals = ms\<rparr>)"
    by (simp add: calculateDayStatus_def Let_def)
  have b: "0 < p' \<longrightarrow>
        severity (calculateDayStatus \<lparr>vomited = v, peed = p', pooped = q, meals = ms\<rparr>)
          \<le> severity (calculateDayStatus \<lparr>vomited = v, peed = 0, pooped = q, meals = ms\<rparr>)"
    by (simp add: calculateDayStatus_def Let_def)
  have c: "0 < q' \<longrightarrow>
        severity (calculateDayStatus \<lparr>vomited = v, peed = p, pooped = q', meals = ms\<rparr>)
          \<le> severity (calculateDayStatus \<lparr>vomited = v, peed = p, pooped = 0, meals = ms\<rparr>)"
    by (simp add: calculateDayStatus_def Let_def)
  have d: "severity (calculateDayStatus
                  \<lparr>vomited = v, peed = p, pooped = q, meals = ms[i := ''ate_fully'']\<rparr>)
        \<le> severity (calculateDayStatus \<lparr>vomited = v, peed = p, pooped = q, meals = ms\<rparr>)"
    using some_missed_update [of ms i]
    by (auto simp add: calculateDayStatus_def Let_def)
  have e: "calculateDayStatus \<lparr>vomited = v, peed = 0, pooped = 0, meals = ms\<rparr> = RED"
    by (simp add: calculateDayStatus_def Let_def)
  from a b c d e show ?thesis by blast
qed

theorem C5_monotone_witness:
  "severity (calculateDayStatus \<lparr>vomited = 0, peed = 0, pooped = 1, meals = [''skipped'']\<rparr>)
     \<le> severity (calculateDayStatus \<lparr>vomited = 3, peed = 0, pooped = 1, meals = [''skipped'']\<rparr>)
   \<and> (0 < (2::int) \<and>
        severity (calculateDayStatus \<lparr>vomited = 3, peed = 2, pooped = 1, meals = [''skipped'']\<rparr>)
          \<le> severity (calculateDayStatus \<lparr>vomited = 3, peed = 0, pooped = 1, meals = [''skipped'']\<rparr>))
   \<and> severity (calculateDayStatus \<lparr>vomited = 3, peed = 0, pooped = 1, meals = [''ate_fully'']\<rparr>)
        \<le> severity (calculateDayStatus \<lparr>vomited = 3, peed = 0, pooped = 1, meals = [''skipped'']\<rparr>)
   \<and> calculateDayStatus \<lparr>vomited = 0, peed = 0, pooped = 0, meals = [''ate_fully'']\<rparr> = RED"
  using C5_monotone [of 0 1 "[''skipped'']" 3 2 1 0]
        C5_monotone [of 0 0 "[''ate_fully'']" 0 1 1 0]
  by (simp add: calculateDayStatus_def)

subsection \<open>Effective-dated defaults\<close>

lemma order_desc_Nil: "order_desc k xs = [] \<longleftrightarrow> xs = []"
proof -
  have "length (order_desc k xs) = length xs" by (simp add: order_desc_def)
  then show ?thesis by (metis length_0_conv)
qed

lemma set_order_desc: "set (order_desc k xs) = set xs"
  by (simp add: order_desc_def)

lemma order_desc_top:
  assumes "order_desc k xs = t # ts"
  shows "t \<in> set xs \<and> (\<forall>x \<in> set xs. k x \<le> k t)"
proof -
  from assms have "rev (sort_key k xs) = t # ts" by (simp add: order_desc_def)
  then have ys: "sort_key k xs = rev ts @ [t]" by (metis rev.simps(2) rev_rev_ident)
  have "sorted (map k (sort_key k xs))" by simp
  with ys have "sorted (map k (rev ts) @ [k t])" by simp
  then have le: "\<forall>x \<in> set ts. k x \<le> k t" by (simp add: sorted_append)
  have "set xs = set (sort_key k xs)" by simp
  with ys have "set xs = insert t (set ts)" by simp
  with le show ?thesis by auto
qed

lemma unique_versions_key:
  assumes "unique_versions h" "v \<in> set h" "w \<in> set h"
    "mh_meal_slot v = mh_meal_slot w" "mh_effective_date v = mh_effective_date w"
  shows "v = w"
proof -
  from assms(1) have "inj_on (\<lambda>v. (mh_meal_slot v, mh_effective_date v)) (set h)"
    unfolding unique_versions_def by (simp add: distinct_map)
  with assms(2-5) show ?thesis by (auto dest: inj_onD)
qed

lemma resolve_none:
  assumes "\<forall>v \<in> set (meal_default_history s). mh_meal_slot v = mealSlot \<longrightarrow> \<not> mh_effective_date v \<le> q"
  shows "getEffectiveDefaultAmount s mealSlot q = 0"
proof -
  have "filter (\<lambda>h. mh_meal_slot h = mealSlot \<and> mh_effective_date h \<le> q) (meal_default_history s) = []"
    using assms by (auto simp: filter_empty_conv)
  then show ?thesis by (simp add: getEffectiveDefaultAmount_def order_desc_def)
qed

lemma resolve_in_force:
  assumes u: "unique_versions (meal_default_history s)" and f: "in_force s mealSlot q v"
  shows "getEffectiveDefaultAmount s mealSlot q = mh_default_amount v"
proof -
  let ?c = "filter (\<lambda>h. mh_meal_slot h = mealSlot \<and> mh_effective_date h \<le> q) (meal_default_history s)"
  from f have vin: "v \<in> set ?c" by (simp add: in_force_def)
  then have "?c \<noteq> []" by (metis empty_iff list.set(1))
  then have "order_desc mh_effective_date ?c \<noteq> []" by (simp only: order_desc_Nil not_False_eq_True)
  then obtain t ts where o: "order_desc mh_effective_date ?c = t # ts"
    by (cases "order_desc mh_effective_date ?c") auto
  from order_desc_top [OF o] have tin: "t \<in> set ?c"
    and tmax: "\<forall>x \<in> set ?c. mh_effective_date x \<le> mh_effective_date t" by blast+
  from tmax vin have "mh_effective_date v \<le> mh_effective_date t" by blast
  moreover from f tin have "mh_effective_date t \<le> mh_effective_date v" by (simp add: in_force_def)
  ultimately have "mh_effective_date t = mh_effective_date v" by simp
  moreover from tin vin have "mh_meal_slot t = mh_meal_slot v" by simp
  moreover from tin vin have "t \<in> set (meal_default_history s)" "v \<in> set (meal_default_history s)" by simp_all
  ultimately have "t = v" using u by (blast intro: unique_versions_key)
  with o show ?thesis by (simp add: getEffectiveDefaultAmount_def)
qed

lemma resolve_cases:
  "(\<forall>v \<in> set (meal_default_history s). mh_meal_slot v = mealSlot \<longrightarrow> \<not> mh_effective_date v \<le> q)
   \<or> (\<exists>v. in_force s mealSlot q v)"
proof (cases "filter (\<lambda>h. mh_meal_slot h = mealSlot \<and> mh_effective_date h \<le> q) (meal_default_history s) = []")
  case True
  then show ?thesis by (auto simp: filter_empty_conv)
next
  case False
  let ?c = "filter (\<lambda>h. mh_meal_slot h = mealSlot \<and> mh_effective_date h \<le> q) (meal_default_history s)"
  from False have "order_desc mh_effective_date ?c \<noteq> []" by (simp add: order_desc_Nil)
  then obtain t ts where o: "order_desc mh_effective_date ?c = t # ts"
    by (cases "order_desc mh_effective_date ?c") auto
  from order_desc_top [OF o] have "in_force s mealSlot q t"
    by (auto simp: in_force_def)
  then show ?thesis by blast
qed


lemma setDefaultAmount_frame:
  "daily_records (setDefaultAmount s mealSlot a d) = daily_records s"
  "meal_entries (setDefaultAmount s mealSlot a d) = meal_entries s"
  "meal_config (setDefaultAmount s mealSlot a d) = meal_config s"
  "medications (setDefaultAmount s mealSlot a d) = medications s"
  "medication_entries (setDefaultAmount s mealSlot a d) = medication_entries s"
  by (simp_all add: setDefaultAmount_def Let_def)

lemma overwrite_eq:
  "mh_meal_slot v = mealSlot \<Longrightarrow> mh_effective_date v = d \<Longrightarrow>
   v\<lparr>mh_default_amount := a\<rparr>
     = \<lparr>mh_meal_slot = mealSlot, mh_default_amount = a, mh_effective_date = d\<rparr>"
  by (cases v) simp

lemma setDefaultAmount_keys:
  "map (\<lambda>v. (mh_meal_slot v, mh_effective_date v)) (meal_default_history (setDefaultAmount s mealSlot a d))
   = (if (mealSlot, d) \<in> set (map (\<lambda>v. (mh_meal_slot v, mh_effective_date v)) (meal_default_history s))
      then map (\<lambda>v. (mh_meal_slot v, mh_effective_date v)) (meal_default_history s)
      else map (\<lambda>v. (mh_meal_slot v, mh_effective_date v)) (meal_default_history s) @ [(mealSlot, d)])"
proof -
  have m: "map (\<lambda>v. (mh_meal_slot v, mh_effective_date v))
             (map (\<lambda>h. if mh_meal_slot h = mealSlot \<and> mh_effective_date h = d
                        then h\<lparr>mh_default_amount := a\<rparr> else h) xs)
           = map (\<lambda>v. (mh_meal_slot v, mh_effective_date v)) xs" for xs
    by (induction xs) auto
  have e: "list_ex (\<lambda>h. mh_meal_slot h = mealSlot \<and> mh_effective_date h = d) (meal_default_history s)
           \<longleftrightarrow> (mealSlot, d) \<in> set (map (\<lambda>v. (mh_meal_slot v, mh_effective_date v)) (meal_default_history s))"
    by (auto simp: list_ex_iff)
  show ?thesis
    unfolding setDefaultAmount_def Let_def e using m by simp
qed

lemma setDefaultAmount_unique:
  assumes "unique_versions (meal_default_history s)"
  shows "unique_versions (meal_default_history (setDefaultAmount s mealSlot a d))"
  using assms unfolding unique_versions_def setDefaultAmount_keys by simp

lemma setDefaultAmount_set:
  "set (meal_default_history (setDefaultAmount s mealSlot a d))
   = insert \<lparr>mh_meal_slot = mealSlot, mh_default_amount = a, mh_effective_date = d\<rparr>
       {v \<in> set (meal_default_history s). \<not> (mh_meal_slot v = mealSlot \<and> mh_effective_date v = d)}"
proof (cases "list_ex (\<lambda>h. mh_meal_slot h = mealSlot \<and> mh_effective_date h = d) (meal_default_history s)")
  case True
  then obtain c where c: "c \<in> set (meal_default_history s)" "mh_meal_slot c = mealSlot" "mh_effective_date c = d"
    by (auto simp: list_ex_iff)
  have "set (map (\<lambda>h. if mh_meal_slot h = mealSlot \<and> mh_effective_date h = d
                        then h\<lparr>mh_default_amount := a\<rparr> else h) (meal_default_history s))
        = insert \<lparr>mh_meal_slot = mealSlot, mh_default_amount = a, mh_effective_date = d\<rparr>
       {v \<in> set (meal_default_history s). \<not> (mh_meal_slot v = mealSlot \<and> mh_effective_date v = d)}"
    (is "?L = ?R")
  proof
    show "?L \<subseteq> ?R" by (auto simp: overwrite_eq)
    show "?R \<subseteq> ?L"
    proof
      fix x assume "x \<in> ?R"
      then consider "x = \<lparr>mh_meal_slot = mealSlot, mh_default_amount = a, mh_effective_date = d\<rparr>"
        | "x \<in> set (meal_default_history s)" "\<not> (mh_meal_slot x = mealSlot \<and> mh_effective_date x = d)"
        by blast
      then show "x \<in> ?L"
      proof cases
        case 1
        with c have "x = (if mh_meal_slot c = mealSlot \<and> mh_effective_date c = d
                        then c\<lparr>mh_default_amount := a\<rparr> else c)" by (simp add: overwrite_eq)
        then show ?thesis using c(1) unfolding set_map by (rule image_eqI)
      next
        case 2
        then have "x = (if mh_meal_slot x = mealSlot \<and> mh_effective_date x = d
                        then x\<lparr>mh_default_amount := a\<rparr> else x)" by auto
        then show ?thesis using 2(1) unfolding set_map by (rule image_eqI)
      qed
    qed
  qed
  with True show ?thesis by (simp add: setDefaultAmount_def Let_def)
next
  case False
  then have "{v \<in> set (meal_default_history s). \<not> (mh_meal_slot v = mealSlot \<and> mh_effective_date v = d)}
             = set (meal_default_history s)"
    by (auto simp: list_ex_iff)
  with False show ?thesis by (simp add: setDefaultAmount_def Let_def)
qed

lemma distinct_key_count:
  "distinct (map f xs) \<Longrightarrow> length (filter (\<lambda>x. f x = k) xs) = (if k \<in> f ` set xs then 1 else 0)"
  by (induction xs) (auto simp: filter_empty_conv)

lemma version_count_unique:
  assumes "unique_versions (meal_default_history s)"
  shows "version_count s mealSlot d
         = (if (\<exists>v \<in> set (meal_default_history s). mh_meal_slot v = mealSlot \<and> mh_effective_date v = d)
            then 1 else 0)"
proof -
  have "version_count s mealSlot d
        = length (filter (\<lambda>v. (mh_meal_slot v, mh_effective_date v) = (mealSlot, d)) (meal_default_history s))"
    by (simp add: version_count_def)
  also have "\<dots> = (if (mealSlot, d) \<in> (\<lambda>v. (mh_meal_slot v, mh_effective_date v)) ` set (meal_default_history s)
                   then 1 else 0)"
    using assms unfolding unique_versions_def by (rule distinct_key_count)
  also have "\<dots> = (if (\<exists>v \<in> set (meal_default_history s). mh_meal_slot v = mealSlot \<and> mh_effective_date v = d)
            then 1 else 0)"
    by (auto simp: image_iff)
  finally show ?thesis .
qed

lemma setDefaultAmount_count:
  assumes "unique_versions (meal_default_history s)"
  shows "version_count (setDefaultAmount s mealSlot a d) mealSlot d = 1"
proof -
  have "\<lparr>mh_meal_slot = mealSlot, mh_default_amount = a, mh_effective_date = d\<rparr>
          \<in> set (meal_default_history (setDefaultAmount s mealSlot a d))"
    by (simp add: setDefaultAmount_set)
  then have "\<exists>v \<in> set (meal_default_history (setDefaultAmount s mealSlot a d)).
               mh_meal_slot v = mealSlot \<and> mh_effective_date v = d"
    by (rule rev_bexI) simp
  with version_count_unique [OF setDefaultAmount_unique [OF assms], of mealSlot a d mealSlot d]
  show ?thesis by simp
qed

lemma setDefaultAmount_other:
  assumes "(slot', d') \<noteq> (mealSlot, d)"
  shows "filter (\<lambda>v. mh_meal_slot v = slot' \<and> mh_effective_date v = d')
                (meal_default_history (setDefaultAmount s mealSlot a d))
         = filter (\<lambda>v. mh_meal_slot v = slot' \<and> mh_effective_date v = d') (meal_default_history s)"
proof -
  have m: "filter (\<lambda>v. mh_meal_slot v = slot' \<and> mh_effective_date v = d')
             (map (\<lambda>h. if mh_meal_slot h = mealSlot \<and> mh_effective_date h = d
                        then h\<lparr>mh_default_amount := a\<rparr> else h) xs)
           = filter (\<lambda>v. mh_meal_slot v = slot' \<and> mh_effective_date v = d') xs" for xs
    using assms by (induction xs) auto
  show ?thesis using assms m by (auto simp: setDefaultAmount_def Let_def)
qed


lemma setDefaultAmount_filter:
  assumes "\<And>v. P v \<Longrightarrow> \<not> (mh_meal_slot v = mealSlot \<and> mh_effective_date v = d)"
    and "\<And>v. P (v\<lparr>mh_default_amount := a\<rparr>) = P v"
  shows "filter P (meal_default_history (setDefaultAmount s mealSlot a d))
         = filter P (meal_default_history s)"
proof -
  have m: "filter P (map (\<lambda>h. if mh_meal_slot h = mealSlot \<and> mh_effective_date h = d
                        then h\<lparr>mh_default_amount := a\<rparr> else h) xs) = filter P xs" for xs
    using assms by (induction xs) auto
  have "\<not> P \<lparr>mh_meal_slot = mealSlot, mh_default_amount = a, mh_effective_date = d\<rparr>"
    using assms(1) by fastforce
  with m show ?thesis by (simp add: setDefaultAmount_def Let_def)
qed

lemma resolve_other_slot:
  assumes "slot' \<noteq> mealSlot"
  shows "getEffectiveDefaultAmount (setDefaultAmount s mealSlot a d) slot' q
         = getEffectiveDefaultAmount s slot' q"
proof -
  have "filter (\<lambda>h. mh_meal_slot h = slot' \<and> mh_effective_date h \<le> q)
          (meal_default_history (setDefaultAmount s mealSlot a d))
        = filter (\<lambda>h. mh_meal_slot h = slot' \<and> mh_effective_date h \<le> q) (meal_default_history s)"
    using assms by (intro setDefaultAmount_filter) auto
  then show ?thesis by (simp add: getEffectiveDefaultAmount_def)
qed

lemma resolve_after_set:
  assumes u: "unique_versions (meal_default_history s)"
  shows "getEffectiveDefaultAmount (setDefaultAmount s mealSlot a d) mealSlot q
         = (if d \<le> q \<and> (\<forall>w \<in> set (meal_default_history s).
                             mh_meal_slot w = mealSlot \<and> d < mh_effective_date w
                             \<longrightarrow> q < mh_effective_date w)
            then a else getEffectiveDefaultAmount s mealSlot q)"
proof -
  let ?s' = "setDefaultAmount s mealSlot a d"
  let ?new = "\<lparr>mh_meal_slot = mealSlot, mh_default_amount = a, mh_effective_date = d\<rparr>"
  let ?h = "meal_default_history s"
  have u': "unique_versions (meal_default_history ?s')"
    using u by (rule setDefaultAmount_unique)
  note hset = setDefaultAmount_set [of s mealSlot a d]
  show ?thesis
  proof (cases "d \<le> q \<and> (\<forall>w \<in> set ?h. mh_meal_slot w = mealSlot \<and> d < mh_effective_date w
                             \<longrightarrow> q < mh_effective_date w)")
    case True
    have "in_force ?s' mealSlot q ?new"
      unfolding in_force_def hset using True by force
    from resolve_in_force [OF u' this]
    have "getEffectiveDefaultAmount ?s' mealSlot q = a" by simp
    then show ?thesis by (simp only: if_P [OF True])
  next
    case False
    from resolve_cases [of s mealSlot q] show ?thesis
    proof
      assume none: "\<forall>v \<in> set ?h. mh_meal_slot v = mealSlot \<longrightarrow> \<not> mh_effective_date v \<le> q"
      with False have dq: "\<not> d \<le> q" by force
      have "\<forall>v \<in> set (meal_default_history ?s'). mh_meal_slot v = mealSlot \<longrightarrow> \<not> mh_effective_date v \<le> q"
        unfolding hset using none dq by auto
      then have "getEffectiveDefaultAmount ?s' mealSlot q = 0" by (rule resolve_none)
      moreover from none have "getEffectiveDefaultAmount s mealSlot q = 0" by (rule resolve_none)
      ultimately show ?thesis by (simp only: if_not_P [OF False])
    next
      assume "\<exists>v. in_force s mealSlot q v"
      then obtain v where v: "in_force s mealSlot q v" ..
      then have vin: "v \<in> set ?h" and vs: "mh_meal_slot v = mealSlot" and vq: "mh_effective_date v \<le> q"
        and vmax: "\<forall>w \<in> set ?h. mh_meal_slot w = mealSlot \<and> mh_effective_date w \<le> q
                     \<longrightarrow> mh_effective_date w \<le> mh_effective_date v"
        by (simp_all add: in_force_def)
      have later: "\<not> d \<le> q \<or> d < mh_effective_date v"
      proof (cases "d \<le> q")
        case True
        with False obtain w where "w \<in> set ?h" "mh_meal_slot w = mealSlot"
          "d < mh_effective_date w" "\<not> q < mh_effective_date w" by blast
        with vmax have "d < mh_effective_date v" by force
        then show ?thesis ..
      next
        case False
        then show ?thesis ..
      qed
      then have nd: "mh_effective_date v \<noteq> d" using vq by auto
      have "in_force ?s' mealSlot q v"
        unfolding in_force_def hset using vin vs vq vmax nd later by auto
      from resolve_in_force [OF u' this] resolve_in_force [OF u v]
      show ?thesis by (simp only: if_not_P [OF False])
    qed
  qed
qed

subsection \<open>Merging a patch\<close>

lemma filter_key_if: "filter P (key_if v k) = (if P k then key_if v k else [])"
  by (cases v) (simp_all add: key_if_def)

lemma fold_teeth_brushed:
  "fold (set_column data) (key_if (p_teeth_brushed data) ''teeth_brushed'') r
   = r\<lparr>dr_teeth_brushed := (case p_teeth_brushed data of Some v \<Rightarrow> v | None \<Rightarrow> dr_teeth_brushed r)\<rparr>"
  by (cases "p_teeth_brushed data") (simp_all add: key_if_def set_column_def)

lemma fold_teeth_comment:
  "fold (set_column data) (key_if (p_teeth_comment data) ''teeth_comment'') r
   = r\<lparr>dr_teeth_comment := (case p_teeth_comment data of Some v \<Rightarrow> v | None \<Rightarrow> dr_teeth_comment r)\<rparr>"
  by (cases "p_teeth_comment data") (simp_all add: key_if_def set_column_def)

lemma fold_vomited:
  "fold (set_column data) (key_if (p_vomited data) ''vomited'') r
   = r\<lparr>dr_vomited := (case p_vomited data of Some v \<Rightarrow> v | None \<Rightarrow> dr_vomited r)\<rparr>"
  by (cases "p_vomited data") (simp_all add: key_if_def set_column_def)

lemma fold_vomited_comment:
  "fold (set_column data) (key_if (p_vomited_comment data) ''vomited_comment'') r
   = r\<lparr>dr_vomited_comment := (case p_vomited_comment data of Some v \<Rightarrow> v | None \<Rightarrow> dr_vomited_comment r)\<rparr>"
  by (cases "p_vomited_comment data") (simp_all add: key_if_def set_column_def)

lemma fold_peed:
  "fold (set_column data) (key_if (p_peed data) ''peed'') r
   = r\<lparr>dr_peed := (case p_peed data of Some v \<Rightarrow> v | None \<Rightarrow> dr_peed r)\<rparr>"
  by (cases "p_peed data") (simp_all add: key_if_def set_column_def)

lemma fold_peed_comment:
  "fold (set_column data) (key_if (p_peed_comment data) ''peed_comment'') r
   = r\<lparr>dr_peed_comment := (case p_peed_comment data of Some v \<Rightarrow> v | None \<Rightarrow> dr_peed_comment r)\<rparr>"
  by (cases "p_peed_comment data") (simp_all add: key_if_def set_column_def)

lemma fold_pooped:
  "fold (set_column data) (key_if (p_pooped data) ''pooped'') r
   = r\<lparr>dr_pooped := (case p_pooped data of Some v \<Rightarrow> v | None \<Rightarrow> dr_pooped r)\<rparr>"
  by (cases "p_pooped data") (simp_all add: key_if_def set_column_def)

lemma fold_pooped_comment:
  "fold (set_column data) (key_if (p_pooped_comment data) ''pooped_comment'') r
   = r\<lparr>dr_pooped_comment := (case p_pooped_comment data of Some v \<Rightarrow> v | None \<Rightarrow> dr_pooped_comment r)\<rparr>"
  by (cases "p_pooped_comment data") (simp_all add: key_if_def set_column_def)

lemma fold_drank:
  "fold (set_column data) (key_if (p_drank data) ''drank'') r
   = r\<lparr>dr_drank := (case p_drank data of Some v \<Rightarrow> v | None \<Rightarrow> dr_drank r)\<rparr>"
  by (cases "p_drank data") (simp_all add: key_if_def set_column_def)

lemma fold_drank_comment:
  "fold (set_column data) (key_if (p_drank_comment data) ''drank_comment'') r
   = r\<lparr>dr_drank_comment := (case p_drank_comment data of Some v \<Rightarrow> v | None \<Rightarrow> dr_drank_comment r)\<rparr>"
  by (cases "p_drank_comment data") (simp_all add: key_if_def set_column_def)

lemma fold_daily_notes:
  "fold (set_column data) (key_if (p_daily_notes data) ''daily_notes'') r
   = r\<lparr>dr_daily_notes := (case p_daily_notes data of Some v \<Rightarrow> v | None \<Rightarrow> dr_daily_notes r)\<rparr>"
  by (cases "p_daily_notes data") (simp_all add: key_if_def set_column_def)

lemma fold_day_status:
  "fold (set_column data) (key_if (p_day_status data) ''day_status'') r
   = r\<lparr>dr_day_status := (case p_day_status data of Some v \<Rightarrow> v | None \<Rightarrow> dr_day_status r)\<rparr>"
  by (cases "p_day_status data") (simp_all add: key_if_def set_column_def)

lemmas fold_columns =
  fold_teeth_brushed fold_teeth_comment fold_vomited fold_vomited_comment fold_peed
  fold_peed_comment fold_pooped fold_pooped_comment fold_drank fold_drank_comment
  fold_daily_notes fold_day_status

lemma filtered_keys:
  "filter (\<lambda>k. k \<noteq> ''id'' \<and> k \<noteq> ''date'') (patch_keys data)
   = key_if (p_teeth_brushed data) ''teeth_brushed''
     @ key_if (p_teeth_comment data) ''teeth_comment''
     @ key_if (p_vomited data) ''vomited''
     @ key_if (p_vomited_comment data) ''vomited_comment''
     @ key_if (p_peed data) ''peed''
     @ key_if (p_peed_comment data) ''peed_comment''
     @ key_if (p_pooped data) ''pooped''
     @ key_if (p_pooped_comment data) ''pooped_comment''
     @ key_if (p_drank data) ''drank''
     @ key_if (p_drank_comment data) ''drank_comment''
     @ key_if (p_daily_notes data) ''daily_notes''
     @ key_if (p_day_status data) ''day_status''"
  by (simp add: patch_keys_def filter_key_if)

lemma fold_fields:
  "fold (set_column data) (filter (\<lambda>k. k \<noteq> ''id'' \<and> k \<noteq> ''date'') (patch_keys data)) r
   = merge_named data r"
  unfolding filtered_keys merge_named_def
  by (simp add: fold_columns cong: option.case_cong)

subsection \<open>The invariant of the store\<close>

lemma find_date_None:
  "find (\<lambda>r. dr_date r = d) rows = None \<longleftrightarrow> d \<notin> dr_date ` set rows"
  by (auto simp: find_None_iff)

lemma find_SomeD: "find P xs = Some x \<Longrightarrow> x \<in> set xs \<and> P x"
  by (induction xs) (auto split: if_splits)

lemma status_text_cases:
  "status_text x = ''RED'' \<or> status_text x = ''ORANGE'' \<or> status_text x = ''GREEN''"
  by (cases x) simp_all

text \<open>The invariant reads three tables only.\<close>

lemma store_inv_tables:
  assumes "daily_records s' = daily_records s" "meal_entries s' = meal_entries s"
    "meal_default_history s' = meal_default_history s"
  shows "store_inv s' = store_inv s"
  using assms by (simp add: store_inv_def)

lemma getOrCreate_rows:
  "daily_records (snd (getOrCreateDailyRecord s now d))
   = (if d \<in> dr_date ` set (daily_records s) then daily_records s
      else daily_records s @ [default_record (next_id (daily_records s)) d now])"
  by (auto simp: getOrCreateDailyRecord_def Let_def find_date_None [symmetric]
           split: option.splits)

lemma getOrCreate_frame:
  "meal_entries (snd (getOrCreateDailyRecord s now d)) = meal_entries s"
  "meal_default_history (snd (getOrCreateDailyRecord s now d)) = meal_default_history s"
  "meal_config (snd (getOrCreateDailyRecord s now d)) = meal_config s"
  "medications (snd (getOrCreateDailyRecord s now d)) = medications s"
  "medication_entries (snd (getOrCreateDailyRecord s now d)) = medication_entries s"
  by (simp_all add: getOrCreateDailyRecord_def Let_def split: option.splits)

lemma getOrCreate_has_date:
  "d \<in> dr_date ` set (daily_records (snd (getOrCreateDailyRecord s now d)))"
  by (simp add: getOrCreate_rows default_record_def)

lemma getOrCreate_inv:
  assumes "store_inv s"
  shows "store_inv (snd (getOrCreateDailyRecord s now d))"
proof (cases "d \<in> dr_date ` set (daily_records s)")
  case True
  with assms show ?thesis
    by (simp add: store_inv_def getOrCreate_rows getOrCreate_frame)
next
  case False
  have "dr_date (default_record (next_id (daily_records s)) d now) = d"
    "dr_day_status (default_record (next_id (daily_records s)) d now) = ''GREEN''"
    by (simp_all add: default_record_def)
  with False assms show ?thesis
    by (auto simp: store_inv_def getOrCreate_rows getOrCreate_frame)
qed

lemma updateDailyRecord_rows:
  "daily_records (updateDailyRecord s now d data)
   = (if filter (\<lambda>k. k \<noteq> ''id'' \<and> k \<noteq> ''date'') (patch_keys data) = []
      then daily_records (snd (getOrCreateDailyRecord s now d))
      else map (\<lambda>r. if dr_date r = d then (merge_named data r)\<lparr>dr_updated_at := now\<rparr> else r)
               (daily_records (snd (getOrCreateDailyRecord s now d))))"
  by (simp add: updateDailyRecord_def Let_def fold_fields)

lemma updateDailyRecord_frame:
  "meal_entries (updateDailyRecord s now d data) = meal_entries s"
  "meal_default_history (updateDailyRecord s now d data) = meal_default_history s"
  "meal_config (updateDailyRecord s now d data) = meal_config s"
  "medications (updateDailyRecord s now d data) = medications s"
  "medication_entries (updateDailyRecord s now d data) = medication_entries s"
  by (simp_all add: updateDailyRecord_def Let_def getOrCreate_frame)

lemma merge_named_key [simp]:
  "dr_id (merge_named data r) = dr_id r" "dr_date (merge_named data r) = dr_date r"
  "dr_created_at (merge_named data r) = dr_created_at r"
  "dr_updated_at (merge_named data r) = dr_updated_at r"
  by (simp_all add: merge_named_def)

lemma merge_named_status:
  "p_day_status data = None \<Longrightarrow> dr_day_status (merge_named data r) = dr_day_status r"
  by (simp add: merge_named_def)

lemma updateDailyRecord_dates:
  "map dr_date (daily_records (updateDailyRecord s now d data))
   = map dr_date (daily_records (snd (getOrCreateDailyRecord s now d)))"
proof -
  have "map dr_date (map (\<lambda>r. if dr_date r = d then (merge_named data r)\<lparr>dr_updated_at := now\<rparr> else r) rows)
        = map dr_date rows" for rows
    by (induction rows) auto
  then show ?thesis by (simp add: updateDailyRecord_rows)
qed

lemma updateDailyRecord_statuses:
  assumes "p_day_status data = None"
  shows "map dr_day_status (daily_records (updateDailyRecord s now d data))
         = map dr_day_status (daily_records (snd (getOrCreateDailyRecord s now d)))"
proof -
  have "map dr_day_status
          (map (\<lambda>r. if dr_date r = d then (merge_named data r)\<lparr>dr_updated_at := now\<rparr> else r) rows)
        = map dr_day_status rows" for rows
    using assms by (induction rows) (auto simp: merge_named_status)
  then show ?thesis by (simp add: updateDailyRecord_rows)
qed

lemma updateDailyRecord_has_date:
  "d \<in> dr_date ` set (daily_records (updateDailyRecord s now d data))"
proof -
  have "d \<in> set (map dr_date (daily_records (updateDailyRecord s now d data)))"
    unfolding updateDailyRecord_dates using getOrCreate_has_date [of d s now] by simp
  then show ?thesis by simp
qed

lemma statuses_ok:
  "list_all (\<lambda>r. dr_day_status r = ''RED'' \<or> dr_day_status r = ''ORANGE''
                   \<or> dr_day_status r = ''GREEN'') rows
   \<longleftrightarrow> list_all (\<lambda>t. t = ''RED'' \<or> t = ''ORANGE'' \<or> t = ''GREEN'') (map dr_day_status rows)"
  by (simp add: list_all_iff)

lemma updateDailyRecord_inv:
  assumes "store_inv s" "p_day_status data = None"
  shows "store_inv (updateDailyRecord s now d data)"
proof -
  from assms(1) have i1: "store_inv (snd (getOrCreateDailyRecord s now d))"
    by (rule getOrCreate_inv)
  then show ?thesis
    unfolding store_inv_def statuses_ok
    by (simp add: updateDailyRecord_dates updateDailyRecord_statuses [OF assms(2)]
                  updateDailyRecord_frame getOrCreate_frame)
qed

lemma upsertMealEntry_frame:
  "daily_records (upsertMealEntry s d mealSlot st am cmt) = daily_records s"
  "meal_default_history (upsertMealEntry s d mealSlot st am cmt) = meal_default_history s"
  "meal_config (upsertMealEntry s d mealSlot st am cmt) = meal_config s"
  "medications (upsertMealEntry s d mealSlot st am cmt) = medications s"
  "medication_entries (upsertMealEntry s d mealSlot st am cmt) = medication_entries s"
  by (simp_all add: upsertMealEntry_def Let_def)

lemma upsertMealEntry_keys:
  "map (\<lambda>e. (me_date e, me_meal_slot e)) (meal_entries (upsertMealEntry s d mealSlot st am cmt))
   = (if (d, mealSlot) \<in> set (map (\<lambda>e. (me_date e, me_meal_slot e)) (meal_entries s))
      then map (\<lambda>e. (me_date e, me_meal_slot e)) (meal_entries s)
      else map (\<lambda>e. (me_date e, me_meal_slot e)) (meal_entries s) @ [(d, mealSlot)])"
proof -
  have m: "map (\<lambda>e. (me_date e, me_meal_slot e))
             (map (\<lambda>e. if me_date e = d \<and> me_meal_slot e = mealSlot
                        then e\<lparr>me_status := st, me_actual_amount := am, me_comment := cmt\<rparr>
                        else e) xs)
           = map (\<lambda>e. (me_date e, me_meal_slot e)) xs" for xs
    by (induction xs) auto
  have e: "list_ex (\<lambda>e. me_date e = d \<and> me_meal_slot e = mealSlot) (meal_entries s)
           \<longleftrightarrow> (d, mealSlot) \<in> set (map (\<lambda>e. (me_date e, me_meal_slot e)) (meal_entries s))"
    by (auto simp: list_ex_iff)
  show ?thesis
    unfolding upsertMealEntry_def Let_def e using m by simp
qed

lemma upsertMealEntry_unique:
  assumes "unique_meals (meal_entries s)"
  shows "unique_meals (meal_entries (upsertMealEntry s d mealSlot st am cmt))"
  using assms unfolding unique_meals_def upsertMealEntry_keys by simp

lemma upsertMealEntry_inv:
  assumes "store_inv s"
  shows "store_inv (upsertMealEntry s d mealSlot st am cmt)"
  using assms by (simp add: store_inv_def upsertMealEntry_frame upsertMealEntry_unique)

lemma setDefaultAmount_inv:
  assumes "store_inv s"
  shows "store_inv (setDefaultAmount s mealSlot a d)"
  using assms by (simp add: store_inv_def setDefaultAmount_frame setDefaultAmount_unique)

lemma put_meal_inv:
  assumes "store_inv s"
  shows "store_inv (put_meal d meal s)"
  using assms
  by (auto simp: put_meal_def Let_def split: option.splits
           intro!: upsertMealEntry_inv setDefaultAmount_inv)

lemma fold_put_meal_inv:
  "store_inv s \<Longrightarrow> store_inv (fold (put_meal d) ms s)"
  by (induction ms arbitrary: s) (simp_all add: put_meal_inv)

text \<open>The medication entries: whether the loop ends or throws, only their table changes.\<close>

lemma upsertMedicationEntry_frame:
  assumes "upsertMedicationEntry s d i taken cmt = Inr s'"
  shows "daily_records s' = daily_records s" "meal_entries s' = meal_entries s"
    "meal_default_history s' = meal_default_history s" "meal_config s' = meal_config s"
    "medications s' = medications s"
  using assms by (auto simp: upsertMedicationEntry_def Let_def split: if_splits)

lemma upsert_medications_frame:
  assumes "upsert_medications d meds s = Inl (e, s') \<or> upsert_medications d meds s = Inr s'"
  shows "daily_records s' = daily_records s \<and> meal_entries s' = meal_entries s
         \<and> meal_default_history s' = meal_default_history s \<and> meal_config s' = meal_config s
         \<and> medications s' = medications s"
  using assms
proof (induction d meds s rule: upsert_medications.induct)
  case (1 d s)
  then show ?case by simp
next
  case (2 d i taken cmt meds s)
  show ?case
  proof (cases "upsertMedicationEntry s d i taken cmt")
    case (Inl err)
    with "2.prems" have "s' = s" by simp
    then show ?thesis by simp
  next
    case (Inr s1)
    with "2.prems"
    have "upsert_medications d meds s1 = Inl (e, s') \<or> upsert_medications d meds s1 = Inr s'"
      by simp
    with "2.IH" Inr
    have a: "daily_records s' = daily_records s1 \<and> meal_entries s' = meal_entries s1
         \<and> meal_default_history s' = meal_default_history s1 \<and> meal_config s' = meal_config s1
         \<and> medications s' = medications s1"
      by blast
    note b = upsertMedicationEntry_frame [OF Inr]
    from a b(1) have "daily_records s' = daily_records s" by (blast intro: trans)
    moreover from a b(2) have "meal_entries s' = meal_entries s" by (blast intro: trans)
    moreover from a b(3) have "meal_default_history s' = meal_default_history s"
      by (blast intro: trans)
    moreover from a b(4) have "meal_config s' = meal_config s" by (blast intro: trans)
    moreover from a b(5) have "medications s' = medications s" by (blast intro: trans)
    ultimately show ?thesis by blast
  qed
qed

lemma upsert_medications_inv:
  assumes "upsert_medications d meds s = Inl (e, s') \<or> upsert_medications d meds s = Inr s'"
    and "store_inv s"
  shows "store_inv s'"
  using upsert_medications_frame [OF assms(1)] assms(2) store_inv_tables [of s' s]
  by blast

lemma updateDayStatus_frame:
  "meal_entries (snd (updateDayStatus s d)) = meal_entries s"
  "meal_default_history (snd (updateDayStatus s d)) = meal_default_history s"
  "meal_config (snd (updateDayStatus s d)) = meal_config s"
  "medications (snd (updateDayStatus s d)) = medications s"
  "medication_entries (snd (updateDayStatus s d)) = medication_entries s"
  by (simp_all add: updateDayStatus_def Let_def split: option.splits)

lemma updateDayStatus_absent:
  "d \<notin> dr_date ` set (daily_records s) \<Longrightarrow> updateDayStatus s d = (GREEN, s)"
  by (simp add: updateDayStatus_def find_date_None [symmetric])

lemma updateDayStatus_present:
  assumes "find (\<lambda>r. dr_date r = d) (daily_records s) = Some rcd"
  shows "updateDayStatus s d
         = (recomputed_status s rcd,
            s\<lparr>daily_records :=
                 map (\<lambda>r. if dr_date r = d
                           then r\<lparr>dr_day_status := status_text (recomputed_status s rcd)\<rparr>
                           else r)
                     (daily_records s)\<rparr>)"
proof -
  from assms have "dr_date rcd = d" by (auto dest: find_SomeD)
  with assms show ?thesis
    by (simp add: updateDayStatus_def Let_def recomputed_status_def)
qed

lemma updateDayStatus_dates:
  "map dr_date (daily_records (snd (updateDayStatus s d))) = map dr_date (daily_records s)"
proof (cases "find (\<lambda>r. dr_date r = d) (daily_records s)")
  case None
  then show ?thesis by (simp add: updateDayStatus_def)
next
  case (Some rcd)
  have "map dr_date (map (\<lambda>r. if dr_date r = d then r\<lparr>dr_day_status := t\<rparr> else r) rows)
        = map dr_date rows" for rows t
    by (induction rows) auto
  then show ?thesis by (simp add: updateDayStatus_present [OF Some])
qed

lemma distinct_dates_eq:
  assumes "distinct (map dr_date rows)" "r \<in> set rows" "r' \<in> set rows" "dr_date r = dr_date r'"
  shows "r = r'"
proof -
  from assms(1) have "inj_on dr_date (set rows)" by (simp add: distinct_map)
  with assms(2-4) show ?thesis by (auto dest: inj_onD)
qed

lemma updateDayStatus_inv:
  assumes i: "store_inv s"
  shows "store_inv (snd (updateDayStatus s d))"
proof (cases "find (\<lambda>r. dr_date r = d) (daily_records s)")
  case None
  then have "d \<notin> dr_date ` set (daily_records s)" by (simp add: find_date_None)
  with i show ?thesis by (simp add: updateDayStatus_absent)
next
  case (Some rcd)
  let ?s' = "snd (updateDayStatus s d)"
  let ?t = "status_text (recomputed_status s rcd)"
  have rows: "daily_records ?s'
              = map (\<lambda>r. if dr_date r = d then r\<lparr>dr_day_status := ?t\<rparr> else r) (daily_records s)"
    by (simp add: updateDayStatus_present [OF Some])
  have "list_all (\<lambda>r. dr_day_status r = ''RED'' \<or> dr_day_status r = ''ORANGE''
                       \<or> dr_day_status r = ''GREEN'') (daily_records ?s')"
    using i status_text_cases [of "recomputed_status s rcd"]
    unfolding rows by (auto simp: store_inv_def list_all_iff)
  moreover have "distinct (map dr_date (daily_records ?s'))"
    using i by (simp add: updateDayStatus_dates store_inv_def)
  moreover have "unique_versions (meal_default_history ?s')" "unique_meals (meal_entries ?s')"
    using i by (simp_all add: updateDayStatus_frame store_inv_def)
  ultimately show ?thesis by (simp add: store_inv_def)
qed

lemma getFullDayData_store:
  "snd (getFullDayData s now d) = snd (getOrCreateDailyRecord s now d)"
  by (simp add: getFullDayData_def Let_def split_def)

lemma put_day_inv:
  assumes "store_inv s"
  shows "store_inv (snd (put_day s now d body))"
proof -
  let ?s1 = "if patch_keys (recordData body) \<noteq> []
             then updateDailyRecord s now d (recordData body) else s"
  let ?m = "case b_medications body of
              None \<Rightarrow> Inr ?s1
            | Some meds \<Rightarrow>
                upsert_medications d
                  (map (\<lambda>med. (med_id med, med_taken med, med_comment med)) meds) ?s1"
  have "p_day_status (recordData body) = None" by (simp add: recordData_def)
  with assms have i1: "store_inv ?s1" by (simp add: updateDailyRecord_inv)
  have m: "store_inv s2" if "?m = Inl (e, s2) \<or> ?m = Inr s2" for e s2
  proof (cases "b_medications body")
    case None
    with that i1 show ?thesis by auto
  next
    case (Some meds)
    with that have "upsert_medications d
                      (map (\<lambda>med. (med_id med, med_taken med, med_comment med)) meds) ?s1
                      = Inl (e, s2)
                    \<or> upsert_medications d
                      (map (\<lambda>med. (med_id med, med_taken med, med_comment med)) meds) ?s1
                      = Inr s2"
      by simp
    from upsert_medications_inv [OF this i1] show ?thesis .
  qed
  show ?thesis
  proof (cases ?m)
    case (Inl a)
    obtain e s2 where a: "a = (e, s2)" by (cases a) auto
    with Inl have "store_inv s2" using m [of e s2] by simp
    with Inl a show ?thesis by (simp add: put_day_def Let_def)
  next
    case (Inr s2)
    then have i2: "store_inv s2" using m [of undefined s2] by simp
    let ?s3 = "case b_meals body of None \<Rightarrow> s2 | Some ms \<Rightarrow> fold (put_meal d) ms s2"
    from i2 have "store_inv ?s3"
      by (cases "b_meals body") (simp_all only: option.case fold_put_meal_inv)
    then have "store_inv (snd (updateDayStatus ?s3 d))" by (rule updateDayStatus_inv)
    then have "store_inv (snd (getOrCreateDailyRecord (snd (updateDayStatus ?s3 d)) now d))"
      by (rule getOrCreate_inv)
    with Inr show ?thesis
      by (simp add: put_day_def Let_def split_def getFullDayData_store)
  qed
qed

lemma medications_inv:
  "store_inv (snd (addMedication s name timeLabel)) = store_inv s"
  "store_inv (deactivateMedication s i) = store_inv s"
  "store_inv (put_medication s i name' time_label sort_order) = store_inv s"
  by (simp_all add: addMedication_def deactivateMedication_def put_medication_def Let_def
                    store_inv_def)

lemma add_inactive_inv:
  "store_inv (snd (add_inactive known name timeLabel s)) = store_inv s"
  by (cases known)
     (simp_all add: add_inactive_def split_def Let_def medications_inv)

lemma import_setup_inv: "store_inv (snd (import_setup s)) = store_inv s"
  by (simp add: import_setup_def Let_def split_def add_inactive_inv)

lemma import_row_inv:
  assumes "store_inv s"
  shows "store_inv (import_row ids s now d row)"
proof -
  let ?s1 = "updateDailyRecord s now d
                 \<lparr>p_id = None, p_date = None,
                  p_teeth_brushed = Some (if csv_teeth_brushed row then 1 else 0),
                  p_teeth_comment = None,
                  p_vomited = Some (csv_vomited row), p_vomited_comment = None,
                  p_peed = Some (csv_peed row), p_peed_comment = None,
                  p_pooped = Some (csv_pooped row), p_pooped_comment = None,
                  p_drank = Some (csv_drank row), p_drank_comment = None,
                  p_daily_notes =
                    Some (if csv_comments row = [] then None else Some (csv_comments row)),
                  p_day_status = None\<rparr>"
  let ?meds = "entry_if (normolactMorningId ids) (csv_normolactMorning row)
                 @ entry_if (normolactEveningId ids) (csv_normolactEvening row)
                 @ entry_if (renalvetId ids) (csv_renalvet row)
                 @ entry_if (fortifloraId ids) (csv_fortiflora row)
                 @ entry_if (robekserId ids) (csv_robeksera row)
                 @ entry_if (gabapentinMorningId ids) (csv_gabapentinMorning row)
                 @ entry_if (gabapentinEveningId ids) (csv_gabapentinEvening row)"
  from assms have i1: "store_inv ?s1" by (simp add: updateDailyRecord_inv)
  show ?thesis
  proof (cases "upsert_medications d ?meds ?s1")
    case (Inl a)
    obtain e s2 where a: "a = (e, s2)" by (cases a) auto
    with Inl have "store_inv s2" using upsert_medications_inv [OF _ i1, of d ?meds e s2] by simp
    with Inl a show ?thesis by (simp add: import_row_def Let_def)
  next
    case (Inr s2)
    then have "store_inv s2"
      using upsert_medications_inv [OF _ i1, of d ?meds undefined s2] by simp
    then have "store_inv (snd (updateDayStatus
                  (upsertMealEntry
                    (upsertMealEntry
                      (upsertMealEntry
                        (upsertMealEntry s2 d 1 (fst (csv_meal1 row)) None (snd (csv_meal1 row)))
                        d 2 (fst (csv_meal2 row)) None (snd (csv_meal2 row)))
                      d 3 (fst (csv_meal3 row)) None (snd (csv_meal3 row)))
                    d 4 (fst (csv_meal4 row)) None (snd (csv_meal4 row))) d))"
      by (intro updateDayStatus_inv upsertMealEntry_inv)
    with Inr show ?thesis by (simp add: import_row_def Let_def)
  qed
qed

lemma fold_import_row_inv:
  "store_inv s \<Longrightarrow> store_inv (fold (\<lambda>(now, d, row) s'. import_row ids s' now d row) rows s)"
  by (induction rows arbitrary: s) (auto simp: import_row_inv)

lemma import_csv_inv: "store_inv s \<Longrightarrow> store_inv (import_csv s rows)"
  by (simp add: import_csv_def split_def Let_def fold_import_row_inv [unfolded split_def]
                import_setup_inv)

lemma handle_inv: "store_inv s \<Longrightarrow> store_inv (handle req s)"
  by (cases req)
     (simp_all add: put_day_inv import_csv_inv getFullDayData_store getOrCreate_inv
                    put_meal_config_def Let_def setDefaultAmount_inv medications_inv)

lemma fold_handle_inv: "store_inv s \<Longrightarrow> store_inv (fold handle reqs s)"
  by (induction reqs arbitrary: s) (simp_all add: handle_inv)

lemma initial_inv: "store_inv initial_store"
  by (simp add: store_inv_def initial_store_def unique_versions_def unique_meals_def)

lemma run_inv: "store_inv (run reqs)"
  unfolding run_def by (rule fold_handle_inv [OF initial_inv])

subsection \<open>Claims on the defaults and on the record update\<close>

lemma version_count_pos:
  "list_ex (\<lambda>h. mh_meal_slot h = mealSlot \<and> mh_effective_date h = d) (meal_default_history s)
   \<longleftrightarrow> 0 < version_count s mealSlot d"
  by (auto simp: version_count_def list_ex_iff filter_empty_conv)

lemma setDefaultAmount_existing:
  assumes "0 < version_count s mealSlot d"
  shows "length (meal_default_history (setDefaultAmount s mealSlot a d))
         = length (meal_default_history s)"
  using assms by (simp add: setDefaultAmount_def Let_def version_count_pos)

lemma setDefaultAmount_new:
  assumes "version_count s mealSlot d = 0"
  shows "meal_default_history (setDefaultAmount s mealSlot a d)
         = meal_default_history s
           @ [\<lparr>mh_meal_slot = mealSlot, mh_default_amount = a, mh_effective_date = d\<rparr>]"
  using assms by (simp add: setDefaultAmount_def Let_def version_count_pos)

text \<open>
  C6. \<^verbatim>\<open>setDefaultAmount\<close> keeps at most one version for every pair of slot and effective
  date. After the call the pair written has exactly one version, carrying the new amount.
  When the pair had a version before, no row is added (the amount is overwritten in
  place); when it had none, exactly one row is appended, wherever its date lies among the
  dates already stored. The versions of every other pair are as before.
\<close>

theorem C6_setDefault_unique:
  assumes "unique_versions (meal_default_history s)"
  shows "unique_versions (meal_default_history (setDefaultAmount s mealSlot a d))
     \<and> version_count (setDefaultAmount s mealSlot a d) mealSlot d = 1
     \<and> \<lparr>mh_meal_slot = mealSlot, mh_default_amount = a, mh_effective_date = d\<rparr>
         \<in> set (meal_default_history (setDefaultAmount s mealSlot a d))
     \<and> (version_count s mealSlot d = 1 \<longrightarrow>
          length (meal_default_history (setDefaultAmount s mealSlot a d))
            = length (meal_default_history s))
     \<and> (version_count s mealSlot d = 0 \<longrightarrow>
          meal_default_history (setDefaultAmount s mealSlot a d)
            = meal_default_history s
              @ [\<lparr>mh_meal_slot = mealSlot, mh_default_amount = a, mh_effective_date = d\<rparr>])
     \<and> (\<forall>slot' d'. (slot', d') \<noteq> (mealSlot, d) \<longrightarrow>
          filter (\<lambda>v. mh_meal_slot v = slot' \<and> mh_effective_date v = d')
                 (meal_default_history (setDefaultAmount s mealSlot a d))
            = filter (\<lambda>v. mh_meal_slot v = slot' \<and> mh_effective_date v = d')
                     (meal_default_history s))"
proof -
  have 1: "unique_versions (meal_default_history (setDefaultAmount s mealSlot a d))"
    using assms by (rule setDefaultAmount_unique)
  have 2: "version_count (setDefaultAmount s mealSlot a d) mealSlot d = 1"
    using assms by (rule setDefaultAmount_count)
  have 3: "\<lparr>mh_meal_slot = mealSlot, mh_default_amount = a, mh_effective_date = d\<rparr>
         \<in> set (meal_default_history (setDefaultAmount s mealSlot a d))"
    by (simp add: setDefaultAmount_set)
  have 4: "version_count s mealSlot d = 1 \<longrightarrow>
          length (meal_default_history (setDefaultAmount s mealSlot a d))
            = length (meal_default_history s)"
    by (simp add: setDefaultAmount_existing)
  have 5: "version_count s mealSlot d = 0 \<longrightarrow>
          meal_default_history (setDefaultAmount s mealSlot a d)
            = meal_default_history s
              @ [\<lparr>mh_meal_slot = mealSlot, mh_default_amount = a, mh_effective_date = d\<rparr>]"
    by (simp add: setDefaultAmount_new)
  have 6: "\<forall>slot' d'. (slot', d') \<noteq> (mealSlot, d) \<longrightarrow>
          filter (\<lambda>v. mh_meal_slot v = slot' \<and> mh_effective_date v = d')
                 (meal_default_history (setDefaultAmount s mealSlot a d))
            = filter (\<lambda>v. mh_meal_slot v = slot' \<and> mh_effective_date v = d')
                     (meal_default_history s)"
    by (intro allI impI setDefaultAmount_other)
  from 1 2 3 4 5 6 show ?thesis by blast
qed

lemma two_versions:
  "run [PutMealConfig ''2025-01-01'' 1 20 (Some ''2025-01-10''),
        PutMealConfig ''2025-01-01'' 1 30 (Some ''2025-02-01'')]
   = initial_store\<lparr>meal_default_history :=
       [\<lparr>mh_meal_slot = 1, mh_default_amount = 20, mh_effective_date = ''2025-01-10''\<rparr>,
        \<lparr>mh_meal_slot = 1, mh_default_amount = 30, mh_effective_date = ''2025-02-01''\<rparr>]\<rparr>"
  by (simp add: run_def put_meal_config_def setDefaultAmount_def initial_store_def)

theorem C6_setDefault_unique_witness:
  "unique_versions (meal_default_history
      (run [PutMealConfig ''2025-01-01'' 1 20 (Some ''2025-01-10''),
            PutMealConfig ''2025-01-01'' 1 30 (Some ''2025-02-01'')]))
   \<and> version_count
        (run [PutMealConfig ''2025-01-01'' 1 20 (Some ''2025-01-10''),
              PutMealConfig ''2025-01-01'' 1 30 (Some ''2025-02-01'')]) 1 ''2025-01-10'' = 1
   \<and> version_count
        (setDefaultAmount
          (run [PutMealConfig ''2025-01-01'' 1 20 (Some ''2025-01-10''),
                PutMealConfig ''2025-01-01'' 1 30 (Some ''2025-02-01'')]) 1 40 ''2025-01-10'')
        1 ''2025-01-10'' = 1
   \<and> length (meal_default_history
        (setDefaultAmount
          (run [PutMealConfig ''2025-01-01'' 1 20 (Some ''2025-01-10''),
                PutMealConfig ''2025-01-01'' 1 30 (Some ''2025-02-01'')]) 1 40 ''2025-01-10'')) = 2
   \<and> getEffectiveDefaultAmount
        (setDefaultAmount
          (run [PutMealConfig ''2025-01-01'' 1 20 (Some ''2025-01-10''),
                PutMealConfig ''2025-01-01'' 1 30 (Some ''2025-02-01'')]) 1 40 ''2025-01-10'')
        1 ''2025-01-12'' = 40"
  using C6_setDefault_unique
          [of "run [PutMealConfig ''2025-01-01'' 1 20 (Some ''2025-01-10''),
                    PutMealConfig ''2025-01-01'' 1 30 (Some ''2025-02-01'')]"
              1 40 "''2025-01-10''"]
  unfolding two_versions
  by (simp add: unique_versions_def version_count_def setDefaultAmount_def
                getEffectiveDefaultAmount_def order_desc_def initial_store_def)

lemma run_unique_versions: "unique_versions (meal_default_history (run reqs))"
  using run_inv [of reqs] by (simp add: store_inv_def)

text \<open>
  C3. In every reachable store, for every slot and query date, \<^verbatim>\<open>getEffectiveDefaultAmount\<close>
  is 0 when the slot has no version dated on or before the query date, and otherwise is the
  amount of the version in force (the one with the greatest effective date not after the
  query date, which then exists). Writing a version for a date changes the answer to the
  new amount exactly for the query dates on or after that date for which no stored version
  of the slot lies after the new date and on or before the query date; for every other
  query date, and for every other slot, the answer is as before.
\<close>

theorem C3_resolve:
  "((\<forall>v \<in> set (meal_default_history (run reqs)).
        mh_meal_slot v = mealSlot \<longrightarrow> \<not> mh_effective_date v \<le> q)
      \<longrightarrow> getEffectiveDefaultAmount (run reqs) mealSlot q = 0)
   \<and> (\<forall>v. in_force (run reqs) mealSlot q v
          \<longrightarrow> getEffectiveDefaultAmount (run reqs) mealSlot q = mh_default_amount v)
   \<and> ((\<exists>v \<in> set (meal_default_history (run reqs)).
          mh_meal_slot v = mealSlot \<and> mh_effective_date v \<le> q)
        \<longrightarrow> (\<exists>v. in_force (run reqs) mealSlot q v))
   \<and> getEffectiveDefaultAmount (setDefaultAmount (run reqs) mealSlot a d) mealSlot q
       = (if d \<le> q \<and> (\<forall>w \<in> set (meal_default_history (run reqs)).
                           mh_meal_slot w = mealSlot \<and> d < mh_effective_date w
                           \<longrightarrow> q < mh_effective_date w)
          then a else getEffectiveDefaultAmount (run reqs) mealSlot q)
   \<and> (slot' \<noteq> mealSlot \<longrightarrow>
        getEffectiveDefaultAmount (setDefaultAmount (run reqs) mealSlot a d) slot' q
          = getEffectiveDefaultAmount (run reqs) slot' q)"
proof -
  note u = run_unique_versions [of reqs]
  have 1: "(\<forall>v \<in> set (meal_default_history (run reqs)).
        mh_meal_slot v = mealSlot \<longrightarrow> \<not> mh_effective_date v \<le> q)
      \<longrightarrow> getEffectiveDefaultAmount (run reqs) mealSlot q = 0"
    by (intro impI resolve_none)
  have 2: "\<forall>v. in_force (run reqs) mealSlot q v
          \<longrightarrow> getEffectiveDefaultAmount (run reqs) mealSlot q = mh_default_amount v"
    by (intro allI impI resolve_in_force [OF u])
  have 3: "(\<exists>v \<in> set (meal_default_history (run reqs)).
          mh_meal_slot v = mealSlot \<and> mh_effective_date v \<le> q)
        \<longrightarrow> (\<exists>v. in_force (run reqs) mealSlot q v)"
    using resolve_cases [of "run reqs" mealSlot q] by blast
  have 4: "getEffectiveDefaultAmount (setDefaultAmount (run reqs) mealSlot a d) mealSlot q
       = (if d \<le> q \<and> (\<forall>w \<in> set (meal_default_history (run reqs)).
                           mh_meal_slot w = mealSlot \<and> d < mh_effective_date w
                           \<longrightarrow> q < mh_effective_date w)
          then a else getEffectiveDefaultAmount (run reqs) mealSlot q)"
    by (rule resolve_after_set [OF u])
  have 5: "slot' \<noteq> mealSlot \<longrightarrow>
        getEffectiveDefaultAmount (setDefaultAmount (run reqs) mealSlot a d) slot' q
          = getEffectiveDefaultAmount (run reqs) slot' q"
    by (intro impI resolve_other_slot)
  from 1 2 3 4 5 show ?thesis by (intro conjI)
qed

lemma in_force_example:
  "in_force
     (initial_store\<lparr>meal_default_history :=
       [\<lparr>mh_meal_slot = 1, mh_default_amount = 20, mh_effective_date = ''2025-01-10''\<rparr>,
        \<lparr>mh_meal_slot = 1, mh_default_amount = 30, mh_effective_date = ''2025-02-01''\<rparr>]\<rparr>)
     1 ''2025-01-15''
     \<lparr>mh_meal_slot = 1, mh_default_amount = 20, mh_effective_date = ''2025-01-10''\<rparr>"
  by (simp add: in_force_def)

theorem C3_resolve_witness:
  "in_force
     (run [PutMealConfig ''2025-01-01'' 1 20 (Some ''2025-01-10''),
           PutMealConfig ''2025-01-01'' 1 30 (Some ''2025-02-01'')])
     1 ''2025-01-15''
     \<lparr>mh_meal_slot = 1, mh_default_amount = 20, mh_effective_date = ''2025-01-10''\<rparr>
   \<and> getEffectiveDefaultAmount
       (run [PutMealConfig ''2025-01-01'' 1 20 (Some ''2025-01-10''),
             PutMealConfig ''2025-01-01'' 1 30 (Some ''2025-02-01'')]) 1 ''2025-01-15'' = 20
   \<and> \<not> (\<exists>v \<in> set (meal_default_history
          (run [PutMealConfig ''2025-01-01'' 1 20 (Some ''2025-01-10''),
                PutMealConfig ''2025-01-01'' 1 30 (Some ''2025-02-01'')])).
          mh_meal_slot v = 1 \<and> mh_effective_date v \<le> ''2025-01-09'')
   \<and> getEffectiveDefaultAmount
       (run [PutMealConfig ''2025-01-01'' 1 20 (Some ''2025-01-10''),
             PutMealConfig ''2025-01-01'' 1 30 (Some ''2025-02-01'')]) 1 ''2025-01-09'' = 0
   \<and> getEffectiveDefaultAmount
       (setDefaultAmount
         (run [PutMealConfig ''2025-01-01'' 1 20 (Some ''2025-01-10''),
               PutMealConfig ''2025-01-01'' 1 30 (Some ''2025-02-01'')]) 1 25 ''2025-01-20'')
       1 ''2025-01-25'' = 25
   \<and> getEffectiveDefaultAmount
       (setDefaultAmount
         (run [PutMealConfig ''2025-01-01'' 1 20 (Some ''2025-01-10''),
               PutMealConfig ''2025-01-01'' 1 30 (Some ''2025-02-01'')]) 1 25 ''2025-01-20'')
       1 ''2025-02-05'' = 30
   \<and> getEffectiveDefaultAmount
       (setDefaultAmount
         (run [PutMealConfig ''2025-01-01'' 1 20 (Some ''2025-01-10''),
               PutMealConfig ''2025-01-01'' 1 30 (Some ''2025-02-01'')]) 1 25 ''2025-01-20'')
       2 ''2025-02-05'' = 0"
  using C3_resolve
          [of "[PutMealConfig ''2025-01-01'' 1 20 (Some ''2025-01-10''),
                PutMealConfig ''2025-01-01'' 1 30 (Some ''2025-02-01'')]"
              1 "''2025-01-15''" 25 "''2025-01-20''" 2]
        in_force_example
  unfolding two_versions
  by (simp add: getEffectiveDefaultAmount_def setDefaultAmount_def order_desc_def
                initial_store_def)

lemma key_if_Nil: "key_if v k = [] \<longleftrightarrow> v = None"
  by (cases v) (simp_all add: key_if_def)

lemma no_fields: "filter (\<lambda>k. k \<noteq> ''id'' \<and> k \<noteq> ''date'') (patch_keys data) = []
                  \<longleftrightarrow> \<not> names_field data"
  unfolding filtered_keys by (simp add: key_if_Nil names_field_def)

lemma updateDailyRecord_other_dates:
  "filter (\<lambda>r. dr_date r \<noteq> d) (daily_records (updateDailyRecord s now d data))
   = filter (\<lambda>r. dr_date r \<noteq> d) (daily_records s)"
proof -
  have m: "filter (\<lambda>r. dr_date r \<noteq> d)
             (map (\<lambda>r. if dr_date r = d then (merge_named data r)\<lparr>dr_updated_at := now\<rparr> else r) rows)
           = filter (\<lambda>r. dr_date r \<noteq> d) rows" for rows
    by (induction rows) auto
  have "filter (\<lambda>r. dr_date r \<noteq> d) (daily_records (snd (getOrCreateDailyRecord s now d)))
        = filter (\<lambda>r. dr_date r \<noteq> d) (daily_records s)"
    by (simp add: getOrCreate_rows default_record_def)
  with m show ?thesis by (simp add: updateDailyRecord_rows)
qed

text \<open>
  C9 (amended). \<^verbatim>\<open>updateDailyRecord\<close> first makes sure that the date has a record. If the
  patch names a field other than \<^verbatim>\<open>id\<close> and \<^verbatim>\<open>date\<close>, the record of that date takes the
  named fields from the patch, keeps every other field, and has \<^verbatim>\<open>updated_at\<close> set to the
  current time; its key, its date and its creation stamp never change, even when the patch
  names \<^verbatim>\<open>id\<close> or \<^verbatim>\<open>date\<close>. Otherwise the record is left as it is. The records of all
  other dates and the other tables are unchanged.
\<close>

theorem C9_merge_named_fields:
  "daily_records (updateDailyRecord s now d data)
     = map (\<lambda>r. if dr_date r = d \<and> names_field data
                 then (merge_named data r)\<lparr>dr_updated_at := now\<rparr> else r)
           (daily_records (snd (getOrCreateDailyRecord s now d)))
   \<and> daily_records (snd (getOrCreateDailyRecord s now d))
       = (if d \<in> dr_date ` set (daily_records s) then daily_records s
          else daily_records s @ [default_record (next_id (daily_records s)) d now])
   \<and> filter (\<lambda>r. dr_date r \<noteq> d) (daily_records (updateDailyRecord s now d data))
       = filter (\<lambda>r. dr_date r \<noteq> d) (daily_records s)
   \<and> dr_id ((merge_named data r)\<lparr>dr_updated_at := now\<rparr>) = dr_id r
   \<and> dr_date ((merge_named data r)\<lparr>dr_updated_at := now\<rparr>) = dr_date r
   \<and> dr_created_at ((merge_named data r)\<lparr>dr_updated_at := now\<rparr>) = dr_created_at r
   \<and> meal_entries (updateDailyRecord s now d data) = meal_entries s
   \<and> meal_default_history (updateDailyRecord s now d data) = meal_default_history s
   \<and> meal_config (updateDailyRecord s now d data) = meal_config s
   \<and> medications (updateDailyRecord s now d data) = medications s
   \<and> medication_entries (updateDailyRecord s now d data) = medication_entries s"
proof -
  have 1: "daily_records (updateDailyRecord s now d data)
     = map (\<lambda>r. if dr_date r = d \<and> names_field data
                 then (merge_named data r)\<lparr>dr_updated_at := now\<rparr> else r)
           (daily_records (snd (getOrCreateDailyRecord s now d)))"
    by (cases "names_field data") (simp_all add: updateDailyRecord_rows no_fields)
  have 2: "daily_records (snd (getOrCreateDailyRecord s now d))
       = (if d \<in> dr_date ` set (daily_records s) then daily_records s
          else daily_records s @ [default_record (next_id (daily_records s)) d now])"
    by (rule getOrCreate_rows)
  have 3: "filter (\<lambda>r. dr_date r \<noteq> d) (daily_records (updateDailyRecord s now d data))
       = filter (\<lambda>r. dr_date r \<noteq> d) (daily_records s)"
    by (rule updateDailyRecord_other_dates)
  have 4: "dr_id ((merge_named data r)\<lparr>dr_updated_at := now\<rparr>) = dr_id r"
    "dr_date ((merge_named data r)\<lparr>dr_updated_at := now\<rparr>) = dr_date r"
    "dr_created_at ((merge_named data r)\<lparr>dr_updated_at := now\<rparr>) = dr_created_at r"
    by simp_all
  from 1 2 3 4 updateDailyRecord_frame [of s now d data] show ?thesis by (intro conjI)
qed

lemma one_untouched_day:
  "run [GetDay ''2025-01-10 08:00:00'' ''2025-01-10'']
   = initial_store\<lparr>daily_records :=
       [default_record 1 ''2025-01-10'' ''2025-01-10 08:00:00'']\<rparr>"
  by (simp add: run_def getFullDayData_store getOrCreateDailyRecord_def next_id_def
                initial_store_def Let_def)

text \<open>
  C9 as stated fails: a patch that names only \<^verbatim>\<open>peed\<close> also changes the column
  \<^verbatim>\<open>updated_at\<close> of the record, which the patch does not name.
\<close>

theorem C9_unnamed_field_changes:
  "p_peed \<lparr>p_id = None, p_date = None, p_teeth_brushed = None, p_teeth_comment = None,
           p_vomited = None, p_vomited_comment = None, p_peed = Some 1,
           p_peed_comment = None, p_pooped = None, p_pooped_comment = None,
           p_drank = None, p_drank_comment = None, p_daily_notes = None,
           p_day_status = None\<rparr> = Some 1
   \<and> map dr_updated_at
        (daily_records (run [GetDay ''2025-01-10 08:00:00'' ''2025-01-10'']))
       = [''2025-01-10 08:00:00'']
   \<and> map dr_updated_at
        (daily_records
          (updateDailyRecord (run [GetDay ''2025-01-10 08:00:00'' ''2025-01-10''])
             ''2025-01-11 09:00:00'' ''2025-01-10''
             \<lparr>p_id = None, p_date = None, p_teeth_brushed = None, p_teeth_comment = None,
              p_vomited = None, p_vomited_comment = None, p_peed = Some 1,
              p_peed_comment = None, p_pooped = None, p_pooped_comment = None,
              p_drank = None, p_drank_comment = None, p_daily_notes = None,
              p_day_status = None\<rparr>))
       = [''2025-01-11 09:00:00'']"
  unfolding one_untouched_day
  by (simp add: updateDailyRecord_rows getOrCreate_rows no_fields names_field_def
                merge_named_def default_record_def initial_store_def)

theorem C9_merge_named_fields_witness:
  "daily_records
     (updateDailyRecord (run [GetDay ''2025-01-10 08:00:00'' ''2025-01-10''])
        ''2025-01-11 09:00:00'' ''2025-01-10''
        \<lparr>p_id = Some 99, p_date = Some ''1999-01-01'', p_teeth_brushed = None,
         p_teeth_comment = None, p_vomited = None, p_vomited_comment = None,
         p_peed = Some 2, p_peed_comment = None, p_pooped = None, p_pooped_comment = None,
         p_drank = None, p_drank_comment = None, p_daily_notes = None,
         p_day_status = None\<rparr>)
   = [(default_record 1 ''2025-01-10'' ''2025-01-10 08:00:00'')
        \<lparr>dr_peed := 2, dr_updated_at := ''2025-01-11 09:00:00''\<rparr>]"
  using C9_merge_named_fields
          [of "run [GetDay ''2025-01-10 08:00:00'' ''2025-01-10'']"
              "''2025-01-11 09:00:00''" "''2025-01-10''"
              "\<lparr>p_id = Some 99, p_date = Some ''1999-01-01'', p_teeth_brushed = None,
                p_teeth_comment = None, p_vomited = None, p_vomited_comment = None,
                p_peed = Some 2, p_peed_comment = None, p_pooped = None,
                p_pooped_comment = None, p_drank = None, p_drank_comment = None,
                p_daily_notes = None, p_day_status = None\<rparr>"]
  unfolding one_untouched_day
  by (simp add: names_field_def merge_named_def default_record_def initial_store_def)

subsection \<open>Status buckets and totals\<close>

lemma find_group:
  "find (\<lambda>s. fst s = k) (map (\<lambda>k. (k, f k)) ks)
   = (if k \<in> set ks then Some (k, f k) else None)"
  by (induction ks) auto

lemma count_of_group:
  "count_of (group_count ks) k = length (filter (\<lambda>x. x = k) ks)"
proof (cases "k \<in> set ks")
  case True
  then show ?thesis by (simp add: count_of_def group_count_def find_group)
next
  case False
  then have "filter (\<lambda>x. x = k) ks = []" by (auto simp: filter_empty_conv)
  with False show ?thesis by (simp add: count_of_def group_count_def find_group)
qed

lemma count_of_status:
  "count_of (group_count (map dr_day_status days)) k
   = length (filter (\<lambda>r. dr_day_status r = k) days)"
proof -
  have "filter (\<lambda>x. x = k) (map dr_day_status days)
        = map dr_day_status (filter (\<lambda>r. dr_day_status r = k) days)"
    by (simp add: filter_map comp_def)
  then show ?thesis by (simp add: count_of_group)
qed

lemma statusCounts_stored:
  "statusCounts (getTrendsSummary s a b)
   = \<lparr>sc_RED = length (filter (\<lambda>r. dr_day_status r = ''RED'')
                    (filter (\<lambda>r. between a b (dr_date r)) (daily_records s))),
      sc_ORANGE = length (filter (\<lambda>r. dr_day_status r = ''ORANGE'')
                    (filter (\<lambda>r. between a b (dr_date r)) (daily_records s))),
      sc_GREEN = length (filter (\<lambda>r. dr_day_status r = ''GREEN'')
                    (filter (\<lambda>r. between a b (dr_date r)) (daily_records s)))\<rparr>"
  by (simp add: getTrendsSummary_def Let_def count_of_status)

lemma totalDays_eq:
  "totalDays (getTrendsSummary s a b)
   = length (remdups (map dr_date (filter (\<lambda>r. between a b (dr_date r)) (daily_records s))))"
  by (simp add: getTrendsSummary_def Let_def)

lemma totalDays_card:
  "totalDays (getTrendsSummary s a b)
   = card (dr_date ` {r \<in> set (daily_records s). between a b (dr_date r)})"
proof -
  have "length (remdups (map dr_date (filter (\<lambda>r. between a b (dr_date r)) (daily_records s))))
        = card (set (map dr_date (filter (\<lambda>r. between a b (dr_date r)) (daily_records s))))"
    by (simp only: length_remdups_card_conv)
  then show ?thesis by (simp add: totalDays_eq)
qed

lemma three_buckets:
  assumes "\<forall>r \<in> set xs. f r = a \<or> f r = b \<or> f r = c" "a \<noteq> b" "a \<noteq> c" "b \<noteq> c"
  shows "length (filter (\<lambda>r. f r = a) xs) + length (filter (\<lambda>r. f r = b) xs)
         + length (filter (\<lambda>r. f r = c) xs) = length xs"
  using assms by (induction xs) auto

lemma status_text_GREEN: "status_text x = ''GREEN'' \<longleftrightarrow> x = GREEN"
  by (cases x) simp_all

lemma status_text_RED: "status_text x = ''RED'' \<longleftrightarrow> x = RED"
  by (cases x) simp_all

lemma status_text_ORANGE: "status_text x = ''ORANGE'' \<longleftrightarrow> x = ORANGE"
  by (cases x) simp_all

lemma inv_status:
  assumes "store_inv s" "r \<in> set (daily_records s)"
  shows "dr_day_status r = ''RED'' \<or> dr_day_status r = ''ORANGE'' \<or> dr_day_status r = ''GREEN''"
  using assms by (simp add: store_inv_def list_all_iff)

lemma inv_distinct_range:
  assumes "store_inv s"
  shows "distinct (map dr_date (filter (\<lambda>r. between a b (dr_date r)) (daily_records s)))"
  using assms by (simp add: store_inv_def distinct_map_filter)

lemma inv_totals:
  assumes i: "store_inv s"
  shows "sc_RED (statusCounts (getTrendsSummary s a b))
         + sc_ORANGE (statusCounts (getTrendsSummary s a b))
         + sc_GREEN (statusCounts (getTrendsSummary s a b))
         = totalDays (getTrendsSummary s a b)"
proof -
  let ?days = "filter (\<lambda>r. between a b (dr_date r)) (daily_records s)"
  have "\<forall>r \<in> set ?days. dr_day_status r = ''RED'' \<or> dr_day_status r = ''ORANGE''
          \<or> dr_day_status r = ''GREEN''"
    using inv_status [OF i] by simp
  then have "length (filter (\<lambda>r. dr_day_status r = ''RED'') ?days)
             + length (filter (\<lambda>r. dr_day_status r = ''ORANGE'') ?days)
             + length (filter (\<lambda>r. dr_day_status r = ''GREEN'') ?days) = length ?days"
    by (rule three_buckets) simp_all
  moreover have "length (remdups (map dr_date ?days)) = length ?days"
    using inv_distinct_range [OF i, of a b] by (simp add: distinct_remdups_id)
  ultimately show ?thesis by (simp add: statusCounts_stored totalDays_eq)
qed

text \<open>
  C7. In every reachable store and for every range, the three status buckets of
  \<^verbatim>\<open>getTrendsSummary\<close> add up to \<^verbatim>\<open>totalDays\<close>, which is the number of distinct dates
  stored in the range; every stored record carries one of the three status texts.
\<close>

theorem C7_buckets_total:
  "sc_RED (statusCounts (getTrendsSummary (run reqs) a b))
     + sc_ORANGE (statusCounts (getTrendsSummary (run reqs) a b))
     + sc_GREEN (statusCounts (getTrendsSummary (run reqs) a b))
     = totalDays (getTrendsSummary (run reqs) a b)
   \<and> totalDays (getTrendsSummary (run reqs) a b)
       = card (dr_date ` {r \<in> set (daily_records (run reqs)). between a b (dr_date r)})
   \<and> (\<forall>r \<in> set (daily_records (run reqs)).
         dr_day_status r = ''RED'' \<or> dr_day_status r = ''ORANGE'' \<or> dr_day_status r = ''GREEN'')"
  using inv_totals [OF run_inv, of reqs a b] totalDays_card [of "run reqs" a b]
        inv_status [OF run_inv, of _ reqs]
  by blast

lemma getOrCreate_store:
  "snd (getOrCreateDailyRecord s now d)
   = s\<lparr>daily_records :=
        (if d \<in> dr_date ` set (daily_records s) then daily_records s
         else daily_records s @ [default_record (next_id (daily_records s)) d now])\<rparr>"
  by (rule store.equality) (simp_all add: getOrCreate_rows getOrCreate_frame)

lemma updateDailyRecord_store:
  "updateDailyRecord s now d data
   = s\<lparr>daily_records :=
        map (\<lambda>r. if dr_date r = d \<and> names_field data
                  then (merge_named data r)\<lparr>dr_updated_at := now\<rparr> else r)
            (if d \<in> dr_date ` set (daily_records s) then daily_records s
             else daily_records s @ [default_record (next_id (daily_records s)) d now])\<rparr>"
proof (rule store.equality)
  show "daily_records (updateDailyRecord s now d data)
        = daily_records (s\<lparr>daily_records :=
        map (\<lambda>r. if dr_date r = d \<and> names_field data
                  then (merge_named data r)\<lparr>dr_updated_at := now\<rparr> else r)
            (if d \<in> dr_date ` set (daily_records s) then daily_records s
             else daily_records s @ [default_record (next_id (daily_records s)) d now])\<rparr>)"
    by (cases "names_field data")
       (simp_all add: updateDailyRecord_rows no_fields getOrCreate_rows)
qed (simp_all add: updateDailyRecord_frame)

lemma patch_keys_recordData:
  "patch_keys (recordData body) \<noteq> [] \<longleftrightarrow> names_field (recordData body)"
proof -
  have "patch_keys (recordData body)
        = filter (\<lambda>k. k \<noteq> ''id'' \<and> k \<noteq> ''date'') (patch_keys (recordData body))"
    by (simp add: patch_keys_def recordData_def key_if_def filter_key_if)
  then show ?thesis using no_fields [of "recordData body"] by simp
qed

text \<open>The store after a day update, in a form that evaluates on a given body.\<close>

lemma put_day_store:
  "snd (put_day s now d body)
   = (case (case b_medications body of
              None \<Rightarrow> Inr (if names_field (recordData body)
                             then updateDailyRecord s now d (recordData body) else s)
            | Some meds \<Rightarrow>
                upsert_medications d
                  (map (\<lambda>med. (med_id med, med_taken med, med_comment med)) meds)
                  (if names_field (recordData body)
                   then updateDailyRecord s now d (recordData body) else s)) of
        Inl a \<Rightarrow> snd a
      | Inr s2 \<Rightarrow>
          snd (getOrCreateDailyRecord
                 (snd (updateDayStatus
                        (case b_meals body of None \<Rightarrow> s2 | Some ms \<Rightarrow> fold (put_meal d) ms s2)
                        d))
                 now d))"
  by (simp add: put_day_def Let_def split_def getFullDayData_store patch_keys_recordData
           split: sum.split)

lemmas eval_store =
  run_def put_day_store getFullDayData_store getOrCreate_store updateDailyRecord_store
  names_field_def merge_named_def recordData_def put_meal_def setDefaultAmount_def
  upsertMealEntry_def upsertMedicationEntry_def updateDayStatus_def calculateDayStatus_def
  next_id_def default_record_def initial_store_def Let_def

lemma example_store:
  "run example_requests
   = \<lparr>daily_records =
        [(default_record 1 ''2025-01-10'' ''2025-01-10 08:00:00'')
           \<lparr>dr_vomited := 1, dr_peed := 2, dr_pooped := 1, dr_day_status := ''ORANGE''\<rparr>,
         (default_record 2 ''2025-01-11'' ''2025-01-11 09:00:00'')
           \<lparr>dr_vomited := 2, dr_day_status := ''RED''\<rparr>,
         default_record 3 ''2025-01-12'' ''2025-01-12 10:00:00'',
         default_record 4 ''2025-01-13'' ''2025-01-13 11:00:00''],
      meal_entries =
        [\<lparr>me_date = ''2025-01-10'', me_meal_slot = 1, me_status = ''ate_fully'',
          me_actual_amount = Some 20, me_comment = None\<rparr>,
         \<lparr>me_date = ''2025-01-11'', me_meal_slot = 3, me_status = ''not_fully'',
          me_actual_amount = None, me_comment = None\<rparr>,
         \<lparr>me_date = ''2025-01-13'', me_meal_slot = 2, me_status = ''skipped'',
          me_actual_amount = None, me_comment = None\<rparr>],
      meal_default_history =
        [\<lparr>mh_meal_slot = 1, mh_default_amount = 20, mh_effective_date = ''2025-01-10''\<rparr>],
      meal_config = meal_config initial_store,
      medications = medications initial_store,
      medication_entries =
        [\<lparr>mt_date = ''2025-01-10'', mt_medication_id = 1, mt_taken = 1, mt_comment = None\<rparr>]\<rparr>"
  by (simp add: example_requests_def eval_store)


theorem C7_buckets_total_witness:
  "sc_RED (statusCounts (getTrendsSummary (run example_requests) ''2025-01-10'' ''2025-01-13'')) = 1
   \<and> sc_ORANGE (statusCounts (getTrendsSummary (run example_requests) ''2025-01-10'' ''2025-01-13'')) = 1
   \<and> sc_GREEN (statusCounts (getTrendsSummary (run example_requests) ''2025-01-10'' ''2025-01-13'')) = 2
   \<and> totalDays (getTrendsSummary (run example_requests) ''2025-01-10'' ''2025-01-13'') = 4"
  using C7_buckets_total [of example_requests "''2025-01-10''" "''2025-01-13''"]
  unfolding example_store
  by (simp add: statusCounts_stored totalDays_eq between_def default_record_def)

lemma fresh_counts:
  assumes "\<forall>r \<in> set (daily_records s). between a b (dr_date r) \<longrightarrow> status_fresh s r"
  shows "statusCounts (getTrendsSummary s a b) = recomputed_counts s a b"
proof -
  let ?days = "filter (\<lambda>r. between a b (dr_date r)) (daily_records s)"
  have eq: "filter (\<lambda>r. dr_day_status r = status_text x) ?days
            = filter (\<lambda>r. recomputed_status s r = x) ?days" for x
  proof (rule filter_cong [OF refl])
    fix r assume "r \<in> set ?days"
    with assms have "dr_day_status r = status_text (recomputed_status s r)"
      by (simp add: status_fresh_def)
    then show "(dr_day_status r = status_text x) = (recomputed_status s r = x)"
      by (cases x; cases "recomputed_status s r") simp_all
  qed
  from eq [of RED] eq [of ORANGE] eq [of GREEN] show ?thesis
    by (simp add: statusCounts_stored recomputed_counts_def)
qed

lemma problem_days_stored:
  "map (\<lambda>p. (pd_date p, pd_status p)) (getProblemDays beyond s a b)
   = map (\<lambda>r. (dr_date r, dr_day_status r))
         (order_desc dr_date
            (filter (\<lambda>r. between a b (dr_date r) \<and> dr_day_status r \<noteq> ''GREEN'')
                    (daily_records s)))"
  by (simp add: getProblemDays_def Let_def comp_def)

lemma fresh_problem_days:
  assumes "\<forall>r \<in> set (daily_records s). between a b (dr_date r) \<longrightarrow> status_fresh s r"
  shows "map (\<lambda>p. (pd_date p, pd_status p)) (getProblemDays beyond s a b)
         = recomputed_problem_days s a b"
proof -
  have f: "filter (\<lambda>r. between a b (dr_date r) \<and> dr_day_status r \<noteq> ''GREEN'') (daily_records s)
           = filter (\<lambda>r. between a b (dr_date r) \<and> recomputed_status s r \<noteq> GREEN) (daily_records s)"
  proof (rule filter_cong [OF refl])
    fix r assume "r \<in> set (daily_records s)"
    with assms show "(between a b (dr_date r) \<and> dr_day_status r \<noteq> ''GREEN'')
                     = (between a b (dr_date r) \<and> recomputed_status s r \<noteq> GREEN)"
      by (auto simp: status_fresh_def status_text_GREEN)
  qed
  have m: "map (\<lambda>r. (dr_date r, dr_day_status r))
             (order_desc dr_date
                (filter (\<lambda>r. between a b (dr_date r) \<and> recomputed_status s r \<noteq> GREEN) (daily_records s)))
           = map (\<lambda>r. (dr_date r, status_text (recomputed_status s r)))
             (order_desc dr_date
                (filter (\<lambda>r. between a b (dr_date r) \<and> recomputed_status s r \<noteq> GREEN) (daily_records s)))"
  proof (rule map_cong [OF refl])
    fix r
    assume "r \<in> set (order_desc dr_date
                (filter (\<lambda>r. between a b (dr_date r) \<and> recomputed_status s r \<noteq> GREEN) (daily_records s)))"
    then have "r \<in> set (daily_records s)" "between a b (dr_date r)"
      by (simp_all add: set_order_desc)
    with assms show "(dr_date r, dr_day_status r) = (dr_date r, status_text (recomputed_status s r))"
      by (simp add: status_fresh_def)
  qed
  show ?thesis
    unfolding problem_days_stored recomputed_problem_days_def f m ..
qed

text \<open>
  C2 as stated fails: reading a day that has no record stores a record with zero counts
  and status GREEN; the summary counts it as GREEN and the problem days omit it, while the
  classifier gives RED for its raw data.
\<close>

theorem C2_stored_status_trusted:
  "statusCounts (getTrendsSummary (run [GetDay ''2025-01-10 08:00:00'' ''2025-01-10''])
                   ''2025-01-10'' ''2025-01-10'')
     = \<lparr>sc_RED = 0, sc_ORANGE = 0, sc_GREEN = 1\<rparr>
   \<and> recomputed_counts (run [GetDay ''2025-01-10 08:00:00'' ''2025-01-10''])
                   ''2025-01-10'' ''2025-01-10''
     = \<lparr>sc_RED = 1, sc_ORANGE = 0, sc_GREEN = 0\<rparr>
   \<and> (\<forall>beyond.
         map (\<lambda>p. (pd_date p, pd_status p))
           (getProblemDays beyond (run [GetDay ''2025-01-10 08:00:00'' ''2025-01-10''])
              ''2025-01-10'' ''2025-01-10'') = [])
   \<and> recomputed_problem_days (run [GetDay ''2025-01-10 08:00:00'' ''2025-01-10''])
           ''2025-01-10'' ''2025-01-10'' = [(''2025-01-10'', ''RED'')]"
  unfolding one_untouched_day
  by (simp add: statusCounts_stored recomputed_counts_def problem_days_stored
                recomputed_problem_days_def recomputed_status_def calculateDayStatus_def
                order_desc_def between_def default_record_def initial_store_def)

text \<open>
  C2 (amended). In every store and for every range, the status buckets of
  \<^verbatim>\<open>getTrendsSummary\<close> count the records of the range by their stored \<^verbatim>\<open>day_status\<close>, and
  \<^verbatim>\<open>getProblemDays\<close> selects and labels the records of the range by their stored
  \<^verbatim>\<open>day_status\<close>; neither recomputes. Whenever the stored status of every record of the
  range is fresh, the buckets and the problem days are those of the classification
  recomputed per day.
\<close>

theorem C2_stored_status:
  "statusCounts (getTrendsSummary s a b)
     = \<lparr>sc_RED = length (filter (\<lambda>r. dr_day_status r = ''RED'')
                    (filter (\<lambda>r. between a b (dr_date r)) (daily_records s))),
        sc_ORANGE = length (filter (\<lambda>r. dr_day_status r = ''ORANGE'')
                    (filter (\<lambda>r. between a b (dr_date r)) (daily_records s))),
        sc_GREEN = length (filter (\<lambda>r. dr_day_status r = ''GREEN'')
                    (filter (\<lambda>r. between a b (dr_date r)) (daily_records s)))\<rparr>
   \<and> map (\<lambda>p. (pd_date p, pd_status p)) (getProblemDays beyond s a b)
       = map (\<lambda>r. (dr_date r, dr_day_status r))
           (order_desc dr_date
              (filter (\<lambda>r. between a b (dr_date r) \<and> dr_day_status r \<noteq> ''GREEN'')
                      (daily_records s)))
   \<and> ((\<forall>r \<in> set (daily_records s). between a b (dr_date r) \<longrightarrow> status_fresh s r)
        \<longrightarrow> statusCounts (getTrendsSummary s a b) = recomputed_counts s a b
            \<and> map (\<lambda>p. (pd_date p, pd_status p)) (getProblemDays beyond s a b)
                = recomputed_problem_days s a b)"
  using statusCounts_stored [of s a b] problem_days_stored [of beyond s a b]
        fresh_counts [of s a b] fresh_problem_days [of s a b beyond]
  by blast

theorem C2_stored_status_witness:
  "list_all (\<lambda>r. \<not> between ''2025-01-10'' ''2025-01-11'' (dr_date r)
                   \<or> status_fresh (run example_requests) r)
            (daily_records (run example_requests))
   \<and> statusCounts (getTrendsSummary (run example_requests) ''2025-01-10'' ''2025-01-11'')
       = \<lparr>sc_RED = 1, sc_ORANGE = 1, sc_GREEN = 0\<rparr>
   \<and> recomputed_counts (run example_requests) ''2025-01-10'' ''2025-01-11''
       = \<lparr>sc_RED = 1, sc_ORANGE = 1, sc_GREEN = 0\<rparr>
   \<and> (\<forall>beyond.
         map (\<lambda>p. (pd_date p, pd_status p))
           (getProblemDays beyond (run example_requests) ''2025-01-10'' ''2025-01-11'')
         = [(''2025-01-11'', ''RED''), (''2025-01-10'', ''ORANGE'')])
   \<and> recomputed_problem_days (run example_requests) ''2025-01-10'' ''2025-01-11''
       = [(''2025-01-11'', ''RED''), (''2025-01-10'', ''ORANGE'')]"
  using C2_stored_status [of "run example_requests" "''2025-01-10''" "''2025-01-11''"]
  unfolding example_store
  by (simp add: statusCounts_stored recomputed_counts_def problem_days_stored
                recomputed_problem_days_def recomputed_status_def calculateDayStatus_def
                status_fresh_def order_desc_def between_def default_record_def)

subsection \<open>Problem days and their issues\<close>



















subsection \<open>Days without a record\<close>







lemma updateDayStatus_default:
  assumes "d \<notin> dr_date ` set rows"
  shows "updateDayStatus (s\<lparr>daily_records := rows @ [default_record i d now]\<rparr>) d
         = (RED, s\<lparr>daily_records := rows @ [(default_record i d now)\<lparr>dr_day_status := ''RED''\<rparr>]\<rparr>)"
proof -
  have dd: "dr_date (default_record i d now) = d" by (simp add: default_record_def)
  from assms have "find (\<lambda>r. dr_date r = d) rows = None" by (simp add: find_date_None)
  then have f: "find (\<lambda>r. dr_date r = d) (rows @ [default_record i d now])
             = Some (default_record i d now)"
    by (induction rows) (auto simp: dd split: if_splits)
  have m: "map (\<lambda>r. if dr_date r = d then r\<lparr>dr_day_status := t\<rparr> else r) rows = rows" for t
    using assms by (induction rows) auto
  have c: "calculateDayStatus \<lparr>vomited = 0, peed = 0, pooped = 0, meals = ms\<rparr> = RED" for ms
    by (simp add: calculateDayStatus_def)
  have z: "dr_vomited (default_record i d now) = 0" "dr_peed (default_record i d now) = 0"
    "dr_pooped (default_record i d now) = 0"
    by (simp_all add: default_record_def)
  show ?thesis
    by (simp add: updateDayStatus_def f Let_def z c m dd)
qed




text \<open>
  C4 as stated fails: for a date with no record \<^verbatim>\<open>updateDayStatus\<close> answers GREEN, not
  RED.
\<close>

theorem C4_no_record_is_green:
  "daily_records initial_store = []
   \<and> fst (updateDayStatus initial_store ''2025-01-10'') = GREEN
   \<and> fst (updateDayStatus initial_store ''2025-01-10'') \<noteq> RED"
  by (simp add: updateDayStatus_def initial_store_def)

text \<open>
  C4 (amended). For a date with no record \<^verbatim>\<open>updateDayStatus\<close> is not an error: it answers
  GREEN without consulting the classifier and writes nothing. The classifier gives RED for
  a zero-valued observation, whatever the meals, and once the zero-valued record of the date
  exists (\<^verbatim>\<open>getOrCreateDailyRecord\<close>), \<^verbatim>\<open>updateDayStatus\<close> answers RED and stores it.
\<close>

theorem C4_no_record:
  assumes "d \<notin> dr_date ` set (daily_records s)"
  shows "updateDayStatus s d = (GREEN, s)
     \<and> calculateDayStatus \<lparr>vomited = 0, peed = 0, pooped = 0, meals = ms\<rparr> = RED
     \<and> updateDayStatus (snd (getOrCreateDailyRecord s now d)) d
         = (RED, s\<lparr>daily_records :=
                     daily_records s
                     @ [(default_record (next_id (daily_records s)) d now)
                          \<lparr>dr_day_status := ''RED''\<rparr>]\<rparr>)"
proof -
  have 1: "updateDayStatus s d = (GREEN, s)"
    using assms by (rule updateDayStatus_absent)
  have 2: "calculateDayStatus \<lparr>vomited = 0, peed = 0, pooped = 0, meals = ms\<rparr> = RED"
    by (simp add: calculateDayStatus_def)
  have 3: "updateDayStatus (snd (getOrCreateDailyRecord s now d)) d
         = (RED, s\<lparr>daily_records :=
                     daily_records s
                     @ [(default_record (next_id (daily_records s)) d now)
                          \<lparr>dr_day_status := ''RED''\<rparr>]\<rparr>)"
    using updateDayStatus_default
            [where rows = "daily_records s" and d = d and s = s
               and i = "next_id (daily_records s)" and now = now] assms
    by (simp add: getOrCreate_store)
  from 1 2 3 show ?thesis by (intro conjI)
qed

theorem C4_no_record_witness:
  "''2025-01-14'' \<notin> dr_date ` set (daily_records (run example_requests))
   \<and> updateDayStatus (run example_requests) ''2025-01-14'' = (GREEN, run example_requests)
   \<and> fst (updateDayStatus
            (snd (getOrCreateDailyRecord (run example_requests)
                    ''2025-01-14 12:00:00'' ''2025-01-14''))
            ''2025-01-14'') = RED"
  using C4_no_record [of "''2025-01-14''" "run example_requests" "[]" "''2025-01-14 12:00:00''"]
  unfolding example_store
  by (simp add: default_record_def)

end
